theory Spec2Isabelle
  imports Main "HOL-Library.Word"
begin

section \<open>JavaScript strings and values\<close>

text \<open>
  A JavaScript string is a sequence of UTF-16 code units. A code unit is modelled by its
  number, so every theorem below that quantifies over strings covers every JavaScript
  string. String literals of the source are written \<open>js ''...''\<close>.
\<close>

type_synonym jsstring = "nat list"

definition js :: "string \<Rightarrow> jsstring" where
  "js s = map of_char s"

text \<open>
  The characters matched by \<open>\s\<close> in a regular expression and removed by
  \<open>String.prototype.trim\<close>: ECMAScript's WhiteSpace and LineTerminator code points.
\<close>

definition isWhiteSpace :: "nat \<Rightarrow> bool" where
  "isWhiteSpace c =
     (c \<in> set [9, 10, 11, 12, 13, 32, 160, 5760, 8232, 8233, 8239, 8287, 12288, 65279]
      \<or> (8192 \<le> c \<and> c \<le> 8202))"

definition trim :: "jsstring \<Rightarrow> jsstring" where
  "trim s = rev (dropWhile isWhiteSpace (rev (dropWhile isWhiteSpace s)))"

primrec startsWith :: "jsstring \<Rightarrow> jsstring \<Rightarrow> bool" where
  "startsWith s [] = True"
| "startsWith s (p # ps) = (case s of [] \<Rightarrow> False | c # cs \<Rightarrow> c = p \<and> startsWith cs ps)"

text \<open>\<open>includes s sub\<close>: \<open>sub\<close> occurs in \<open>s\<close> as a contiguous substring.\<close>

fun includes_str :: "jsstring \<Rightarrow> jsstring \<Rightarrow> bool" where
  "includes_str [] sub = (sub = [])"
| "includes_str (c # cs) sub = (startsWith (c # cs) sub \<or> includes_str cs sub)"

text \<open>
  A value of type \<open>string | undefined\<close> is a \<open>jsstring option\<close>. It is falsy when it is
  \<open>undefined\<close> or the empty string. In a template literal \<open>undefined\<close> is rendered as the
  nine characters \<open>undefined\<close>.
\<close>

definition truthy :: "jsstring option \<Rightarrow> bool" where
  "truthy v = (case v of None \<Rightarrow> False | Some s \<Rightarrow> s \<noteq> [])"

text \<open>
  nbformat's \<open>MultilineString\<close> is \<open>string | string[]\<close>. In a template literal an array
  is rendered by \<open>Array.prototype.toString\<close>: its elements joined by commas.
\<close>

datatype multiline = Single jsstring | Multi "jsstring list"

fun join_comma :: "jsstring list \<Rightarrow> jsstring" where
  "join_comma [] = []"
| "join_comma [x] = x"
| "join_comma (x # y # ys) = x @ js '','' @ join_comma (y # ys)"

definition template :: "multiline option \<Rightarrow> jsstring" where
  "template v =
     (case v of None \<Rightarrow> js ''undefined''
      | Some (Single s) \<Rightarrow> s
      | Some (Multi xs) \<Rightarrow> join_comma xs)"

text \<open>Errors that a call can throw or a promise can reject with.\<close>

datatype error =
    Error jsstring
  | SessionDisposedError
  | Rejected jsstring

section \<open>ExportBase.b64toBlob\<close>

type_synonym byte = "8 word"

text \<open>\<open>b64Data.replace(/^[^,]+,/, '')\<close>: a non-empty run of characters other than a comma
  at the start of the string, followed by a comma, is removed.\<close>

definition strip_prefix :: "jsstring \<Rightarrow> jsstring" where
  "strip_prefix s =
     (let p = takeWhile (\<lambda>c. c \<noteq> 44) s; r = dropWhile (\<lambda>c. c \<noteq> 44) s
      in if p \<noteq> [] \<and> r \<noteq> [] then tl r else s)"

text \<open>\<open>b64Data.replace(/\s/g, '')\<close>.\<close>

definition strip_space :: "jsstring \<Rightarrow> jsstring" where
  "strip_space s = filter (\<lambda>c. \<not> isWhiteSpace c) s"

definition sliceSize :: nat where
  "sliceSize = 512"

text \<open>\<open>str.slice(a, b)\<close> for \<open>0 \<le> a \<le> b\<close>.\<close>

definition slice_str :: "jsstring \<Rightarrow> nat \<Rightarrow> nat \<Rightarrow> jsstring" where
  "slice_str s a b = take (b - a) (drop a s)"

text \<open>The inner loop fills \<open>byteNumbers[i] = slice.charCodeAt(i)\<close> for every index of the
  slice; \<open>new Uint8Array(byteNumbers)\<close> stores each number modulo 256.\<close>

definition Uint8Array :: "nat list \<Rightarrow> byte list" where
  "Uint8Array ns = map of_nat ns"

definition byteNumbers :: "jsstring \<Rightarrow> nat list" where
  "byteNumbers sl = map (\<lambda>i. sl ! i) [0..<length sl]"

text \<open>The outer loop: \<open>for (offset = 0; offset < byteCharacters.length; offset += sliceSize)\<close>,
  pushing one byte array per slice.\<close>

function b64_loop :: "jsstring \<Rightarrow> nat \<Rightarrow> byte list list \<Rightarrow> byte list list" where
  "b64_loop byteCharacters offset byteArrays =
     (if offset < length byteCharacters
      then b64_loop byteCharacters (offset + sliceSize)
             (byteArrays @ [Uint8Array (byteNumbers (slice_str byteCharacters offset (offset + sliceSize)))])
      else byteArrays)"
  by pat_completeness auto
termination
  by (relation "measure (\<lambda>(bc, offset, arrs). length bc - offset)") (auto simp: sliceSize_def)

declare b64_loop.simps [simp del]

text \<open>
  \<open>atob\<close> is the platform's base64 decoder; it is a parameter of the model. It returns a
  binary string or throws. The bytes of the \<open>Blob\<close> are the byte arrays, concatenated; the
  content type does not enter them.
\<close>

definition b64toBlob :: "(jsstring \<Rightarrow> error + jsstring) \<Rightarrow> jsstring \<Rightarrow> error + byte list" where
  "b64toBlob decoder b64Data =
     (case decoder (strip_space (strip_prefix b64Data)) of
        Inl e \<Rightarrow> Inl e
      | Inr byteCharacters \<Rightarrow> Inr (concat (b64_loop byteCharacters 0 [])))"

text \<open>Decoding in a single pass: every character of the decoded binary string becomes
  one byte.\<close>

definition decode_single_pass :: "(jsstring \<Rightarrow> error + jsstring) \<Rightarrow> jsstring \<Rightarrow> error + byte list" where
  "decode_single_pass decoder stripped =
     (case decoder stripped of Inl e \<Rightarrow> Inl e | Inr byteCharacters \<Rightarrow> Inr (map of_nat byteCharacters))"

section \<open>ExportBase: data, dependencies and effects\<close>

datatype ExportFormat = pdf | html | python

text \<open>An \<open>nbformat.IOutput\<close>, with the fields the export reads. \<open>stream_name\<close> is the
  field \<open>name\<close> and \<open>stream_text\<close> the field \<open>text\<close> of a stream output;
  \<open>data_text_plain\<close> is \<open>data['text/plain']\<close>. A field the output lacks is \<open>undefined\<close>.\<close>

record IOutput =
  output_type :: jsstring
  stream_name :: "jsstring option"
  stream_text :: multiline
  data_text_plain :: "multiline option"

datatype connection_kind =
    startUsingLocalKernelSpec
  | startUsingPythonInterpreter
  | connectToLiveRemoteKernel
  | startUsingRemoteKernelSpec

record interpreter =
  env_id :: jsstring
  isCondaEnvWithoutPython :: bool

text \<open>A \<open>KernelConnectionMetadata\<close>: \<open>conn_id\<close> is its field \<open>id\<close>.\<close>

record connection =
  conn_id :: jsstring
  kind :: connection_kind
  interpreter :: "interpreter option"

type_synonym kernelConnection = nat

record session =
  session_kernel :: "kernelConnection option"

record kernel =
  kernel_session :: "session option"
  kernelConnectionMetadata :: connection
  resourceUri :: "jsstring option"

text \<open>A parsed JSON value, named by the text it was parsed from.\<close>

datatype json = Json jsstring

datatype file_data = Binary "byte list" | Text jsstring

text \<open>The calls the export makes on its collaborators, in the order it makes them.\<close>

datatype event =
    KernelStart
  | CreateConnectionInfo
  | GetServerConnectSettings
  | GetContent nat
  | CreateBackingFile
  | ContentsSave jsstring json
  | ExecuteSilently kernelConnection jsstring
  | ContentsNewUntitled jsstring
  | ContentsGet jsstring jsstring
  | FsWriteFile jsstring file_data
  | ContentsDelete jsstring
  | BackingFileDispose
  | ContentsManagerDispose
  | TraceLog jsstring
  | Handler jsstring

text \<open>
  Functions of the repository and the platform that the export calls and whose code is
  not part of the two files: they are parameters. \<open>formatName\<close> gives the string value of
  an \<open>ExportFormat\<close> member, as a template literal renders it.
\<close>

record deps =
  isRemoteConnection :: "connection \<Rightarrow> bool"
  concatMultilineString :: "multiline \<Rightarrow> jsstring"
  basename :: "jsstring \<Rightarrow> jsstring"
  formatName :: "ExportFormat \<Rightarrow> jsstring"
  JSON_parse :: "jsstring \<Rightarrow> error + json"
  atob :: "jsstring \<Rightarrow> error + jsstring"

text \<open>
  The environment of one call: what each asynchronous call on a collaborator settles
  with, \<open>Inl\<close> a rejection and \<open>Inr\<close> the value. A call site is reached at most once in a
  call, so one field per call site describes any behaviour of the collaborators.
  \<open>kernel_start\<close> gives the kernel's session after \<open>start\<close> resolved; \<open>createBackingFile\<close>
  gives the backing file's \<open>filePath\<close>, or \<open>undefined\<close>.
\<close>

record world =
  kernelProvider_get :: "nat \<Rightarrow> kernel option"
  kernel_start :: "error + session option"
  createConnectionInfo :: "error + unit"
  getServerConnectSettings :: "error + unit"
  getContent :: "nat \<Rightarrow> error + jsstring"
  createBackingFile :: "error + jsstring option"
  contents_save :: "error + unit"
  execute_getcwd :: "error + IOutput list"
  contents_newUntitled :: "error + jsstring"
  execute_nbconvert :: "error + IOutput list"
  contents_get :: "error + jsstring"
  fs_writeFile :: "error + unit"
  contents_delete_temp :: "error + unit"
  backingFile_dispose :: "error + unit"
  contents_delete_backing :: "error + unit"

text \<open>A computation: the calls it made, and the error it threw or the value it returned.\<close>

type_synonym 'a io = "event list \<times> (error + 'a)"

text \<open>\<open>await ev r k\<close>: make the call \<open>ev\<close>, which settles with \<open>r\<close>; a rejection is thrown,
  a value is passed on to \<open>k\<close>.\<close>

definition await :: "event \<Rightarrow> error + 'a \<Rightarrow> ('a \<Rightarrow> 'b io) \<Rightarrow> 'b io" where
  "await ev r k =
     (case r of
        Inl e \<Rightarrow> ([ev], Inl e)
      | Inr v \<Rightarrow> (case k v of (t, x) \<Rightarrow> (ev # t, x)))"

text \<open>\<open>await call.catch(noop)\<close>: a rejection is swallowed.\<close>

definition await_catch_noop :: "event \<Rightarrow> error + unit \<Rightarrow> 'b io \<Rightarrow> 'b io" where
  "await_catch_noop ev r k = (case k of (t, x) \<Rightarrow> (ev # t, x))"

text \<open>\<open>try { body } finally { fin }\<close>, where \<open>body\<close> also yields the value that the variable
  \<open>tempTarget\<close> holds when the block is left: when \<open>fin\<close> throws, its error replaces the
  outcome of \<open>body\<close>.\<close>

definition try_finally :: "unit io \<times> jsstring option \<Rightarrow> (jsstring option \<Rightarrow> unit io) \<Rightarrow> unit io" where
  "try_finally body fin =
     (case body of ((t1, r1), tempTarget) \<Rightarrow>
        (case fin tempTarget of
           (t2, Inl e) \<Rightarrow> (t1 @ t2, Inl e)
         | (t2, Inr u) \<Rightarrow> (t1 @ t2, r1)))"

text \<open>The calls of the cleanup: deletions on the remote store and disposals.\<close>

fun is_cleanup :: "event \<Rightarrow> bool" where
  "is_cleanup (ContentsDelete p) = True"
| "is_cleanup BackingFileDispose = True"
| "is_cleanup ContentsManagerDispose = True"
| "is_cleanup ev = False"

text \<open>File I/O and kernel execution: a remote file is created, saved, read or deleted, code
  runs in the kernel, or a local file is written.\<close>

fun is_io :: "event \<Rightarrow> bool" where
  "is_io CreateBackingFile = True"
| "is_io (ContentsSave p c) = True"
| "is_io (ExecuteSilently kc code) = True"
| "is_io (ContentsNewUntitled ext) = True"
| "is_io (ContentsGet p f) = True"
| "is_io (FsWriteFile p d) = True"
| "is_io (ContentsDelete p) = True"
| "is_io ev = False"

section \<open>ExportBase: the methods\<close>

text \<open>\<open>export\<close>: the body is \<open>return undefined\<close>.\<close>

definition export :: "deps \<Rightarrow> world \<Rightarrow> nat \<Rightarrow> jsstring \<Rightarrow> interpreter \<Rightarrow> bool \<Rightarrow> unit io" where
  "export D W sourceDocument target interp token = ([], Inr ())"

definition fileExt :: "ExportFormat \<Rightarrow> jsstring" where
  "fileExt format =
     (case format of html \<Rightarrow> js ''.html'' | pdf \<Rightarrow> js ''.pdf'' | python \<Rightarrow> js ''.py'')"

definition parseStreamOutput :: "deps \<Rightarrow> IOutput list \<Rightarrow> jsstring option" where
  "parseStreamOutput D outputs =
     (case outputs of
        [] \<Rightarrow> None
      | out # rest \<Rightarrow>
          if stream_name out \<noteq> Some (js ''stdout'') \<and> output_type out \<noteq> js ''stream''
          then None
          else Some (trim (concatMultilineString D (stream_text out))))"

definition isExportFailed :: "jsstring option \<Rightarrow> bool" where
  "isExportFailed message =
     (case message of
        None \<Rightarrow> True
      | Some m \<Rightarrow>
          if m = [] then True
          else includes_str m (js ''Traceback (most recent call last)''))"

definition getCWD :: "world \<Rightarrow> kernel \<Rightarrow> (multiline option) io" where
  "getCWD W k =
     (case kernel_session k of
        None \<Rightarrow> ([], Inl SessionDisposedError)
      | Some s \<Rightarrow>
          (case session_kernel s of
             None \<Rightarrow> ([], Inl SessionDisposedError)
           | Some kc \<Rightarrow>
               await (ExecuteSilently kc (js ''import os;os.getcwd();'')) (execute_getcwd W)
                 (\<lambda>outputs.
                    case outputs of
                      [] \<Rightarrow> ([], Inr None)
                    | out # rest \<Rightarrow>
                        if output_type out \<noteq> js ''execute_result'' then ([], Inr None)
                        else ([], Inr (data_text_plain out)))))"

text \<open>The template literal \<open>`${pwd}/${backingFile.filePath}`\<close>.\<close>

definition source_path :: "multiline option \<Rightarrow> jsstring \<Rightarrow> jsstring" where
  "source_path pwd backingPath = template pwd @ js ''/'' @ backingPath"

text \<open>The template literal
  \<open>`!jupyter nbconvert ${filePath} --to ${format} --output ${path.basename(tempTarget)}`\<close>.\<close>

definition nbconvert_command :: "deps \<Rightarrow> jsstring \<Rightarrow> ExportFormat \<Rightarrow> jsstring \<Rightarrow> jsstring" where
  "nbconvert_command D filePath format tempTarget =
     js ''!jupyter nbconvert '' @ filePath @ js '' --to '' @ formatName D format
       @ js '' --output '' @ basename D tempTarget"

text \<open>Lines 137 to 143: the check of the command's output.\<close>

definition check_output :: "deps \<Rightarrow> ExportFormat \<Rightarrow> IOutput list \<Rightarrow> unit io" where
  "check_output D format outputs =
     (let text = parseStreamOutput D outputs in
      if isExportFailed text
      then ([], Inl (Error (case text of
                              None \<Rightarrow> js ''Failed to export to '' @ formatName D format
                            | Some m \<Rightarrow> if m \<noteq> [] then m
                                        else js ''Failed to export to '' @ formatName D format)))
      else (case text of
              None \<Rightarrow> ([], Inr ())
            | Some m \<Rightarrow> if m \<noteq> [] then ([TraceLog m], Inr ()) else ([], Inr ())))"

text \<open>Lines 145 to 161: fetch the converted file and write it to the target.\<close>

definition fetch_and_write :: "deps \<Rightarrow> world \<Rightarrow> ExportFormat \<Rightarrow> jsstring \<Rightarrow> jsstring \<Rightarrow> unit io" where
  "fetch_and_write D W format tempTarget target =
     (if format = pdf
      then await (ContentsGet tempTarget (js ''base64'')) (contents_get W)
             (\<lambda>content.
                case b64toBlob (atob D) content of
                  Inl e \<Rightarrow> ([], Inl e)
                | Inr bytes \<Rightarrow>
                    await (FsWriteFile target (Binary bytes)) (fs_writeFile W) (\<lambda>u. ([], Inr ())))
      else await (ContentsGet tempTarget (js ''text'')) (contents_get W)
             (\<lambda>content.
                await (FsWriteFile target (Text content)) (fs_writeFile W) (\<lambda>u. ([], Inr ()))))"

text \<open>Lines 130 to 161: the part of the \<open>try\<close> block after \<open>tempTarget\<close> is assigned.\<close>

definition convert :: "deps \<Rightarrow> world \<Rightarrow> kernelConnection \<Rightarrow> ExportFormat \<Rightarrow> multiline option
    \<Rightarrow> jsstring \<Rightarrow> jsstring \<Rightarrow> jsstring \<Rightarrow> unit io" where
  "convert D W kc format pwd backingPath tempTarget target =
     await (ExecuteSilently kc (nbconvert_command D (source_path pwd backingPath) format tempTarget))
       (execute_nbconvert W)
       (\<lambda>outputs.
          case check_output D format outputs of
            (t, Inl e) \<Rightarrow> (t, Inl e)
          | (t, Inr u) \<Rightarrow>
              (case fetch_and_write D W format tempTarget target of (t', r) \<Rightarrow> (t @ t', r)))"

text \<open>Lines 126 to 161: the \<open>try\<close> block, with the value of \<open>tempTarget\<close> when it is left.\<close>

definition try_block :: "deps \<Rightarrow> world \<Rightarrow> kernel \<Rightarrow> kernelConnection \<Rightarrow> ExportFormat
    \<Rightarrow> jsstring \<Rightarrow> jsstring \<Rightarrow> unit io \<times> jsstring option" where
  "try_block D W k kc format backingPath target =
     (case getCWD W k of
        (t1, Inl e) \<Rightarrow> ((t1, Inl e), None)
      | (t1, Inr pwd) \<Rightarrow>
          (case contents_newUntitled W of
             Inl e \<Rightarrow> ((t1 @ [ContentsNewUntitled (fileExt format)], Inl e), None)
           | Inr tempTarget \<Rightarrow>
               (case convert D W kc format pwd backingPath tempTarget target of
                  (t2, r) \<Rightarrow>
                    ((t1 @ ContentsNewUntitled (fileExt format) # t2, r), Some tempTarget))))"

text \<open>Lines 166 to 168.\<close>

definition dispose_backing :: "world \<Rightarrow> jsstring \<Rightarrow> unit io" where
  "dispose_backing W backingPath =
     await BackingFileDispose (backingFile_dispose W)
       (\<lambda>u. await_catch_noop (ContentsDelete backingPath) (contents_delete_backing W)
               ([ContentsManagerDispose], Inr ()))"

text \<open>Lines 162 to 169: the \<open>finally\<close> block.\<close>

definition finally_block :: "world \<Rightarrow> jsstring \<Rightarrow> jsstring option \<Rightarrow> unit io" where
  "finally_block W backingPath tempTarget =
     (case tempTarget of
        None \<Rightarrow> dispose_backing W backingPath
      | Some t \<Rightarrow>
          if t \<noteq> []
          then await (ContentsDelete t) (contents_delete_temp W) (\<lambda>u. dispose_backing W backingPath)
          else dispose_backing W backingPath)"

text \<open>Lines 107 to 169: from the creation of the backing file on.\<close>

definition stage_and_convert :: "deps \<Rightarrow> world \<Rightarrow> kernel \<Rightarrow> kernelConnection \<Rightarrow> ExportFormat
    \<Rightarrow> jsstring \<Rightarrow> jsstring \<Rightarrow> unit io" where
  "stage_and_convert D W k kc format contents target =
     await CreateBackingFile (createBackingFile W)
       (\<lambda>backingFile.
          case backingFile of
            None \<Rightarrow> ([], Inr ())
          | Some backingPath \<Rightarrow>
              (case JSON_parse D contents of
                 Inl e \<Rightarrow> ([], Inl e)
               | Inr content \<Rightarrow>
                   await_catch_noop (ContentsSave backingPath content) (contents_save W)
                     (try_finally (try_block D W k kc format backingPath target)
                        (finally_block W backingPath))))"

text \<open>Lines 71 to 113: the guards after the kernel was looked up and started, and the
  calls up to the creation of the backing file.\<close>

definition export_with_kernel :: "deps \<Rightarrow> world \<Rightarrow> nat \<Rightarrow> kernel \<Rightarrow> ExportFormat \<Rightarrow> jsstring \<Rightarrow> unit io" where
  "export_with_kernel D W sourceDocument k format target =
     (case kernel_session k of
        None \<Rightarrow> ([], Inr ())
      | Some s \<Rightarrow>
          (case session_kernel s of
             None \<Rightarrow> ([], Inr ())
           | Some kc \<Rightarrow>
               if \<not> isRemoteConnection D (kernelConnectionMetadata k) then ([], Inr ())
               else if resourceUri k \<noteq> None then ([], Inr ())
               else
                 await CreateConnectionInfo (createConnectionInfo W) (\<lambda>connection.
                 await GetServerConnectSettings (getServerConnectSettings W) (\<lambda>serverSettings.
                 await (GetContent sourceDocument) (getContent W sourceDocument) (\<lambda>contents.
                 stage_and_convert D W k kc format contents target)))))"

definition executeCommand :: "deps \<Rightarrow> world \<Rightarrow> nat \<Rightarrow> jsstring \<Rightarrow> ExportFormat \<Rightarrow> unit io" where
  "executeCommand D W sourceDocument target format =
     (case kernelProvider_get W sourceDocument of
        None \<Rightarrow> ([], Inr ())
      | Some k \<Rightarrow>
          (case kernel_session k of
             None \<Rightarrow>
               await KernelStart (kernel_start W)
                 (\<lambda>s. export_with_kernel D W sourceDocument (k\<lparr>kernel_session := s\<rparr>) format target)
           | Some s \<Rightarrow> export_with_kernel D W sourceDocument k format target))"

text \<open>Lines 63 to 70, read on their own: the kernel that the guards of lines 71 to 82
  inspect, when the call gets that far. A kernel with a session is left as it is; one
  without is started.\<close>

definition started :: "world \<Rightarrow> kernel \<Rightarrow> kernel option" where
  "started W k0 =
     (case kernel_session k0 of
        Some s \<Rightarrow> Some k0
      | None \<Rightarrow> (case kernel_start W of Inl e \<Rightarrow> None | Inr s \<Rightarrow> Some (k0\<lparr>kernel_session := s\<rparr>)))"

text \<open>\<open>reaches_try D W doc k kc content backingPath\<close>: in the environment \<open>W\<close> the call for
  the document \<open>doc\<close> enters the \<open>try\<close> block. Its kernel is \<open>k\<close> once started, with the
  kernel handle \<open>kc\<close>; it is remote and has no resource; the connection, the settings and
  the contents were obtained; the contents parse to \<open>content\<close>; and the backing file
  \<open>backingPath\<close> was created.\<close>

definition reaches_try :: "deps \<Rightarrow> world \<Rightarrow> nat \<Rightarrow> kernel \<Rightarrow> kernelConnection \<Rightarrow> json
    \<Rightarrow> jsstring \<Rightarrow> bool" where
  "reaches_try D W doc k kc content backingPath =
     (case kernelProvider_get W doc of
        None \<Rightarrow> False
      | Some k0 \<Rightarrow>
          started W k0 = Some k
          \<and> (case kernel_session k of None \<Rightarrow> False | Some s \<Rightarrow> session_kernel s = Some kc)
          \<and> isRemoteConnection D (kernelConnectionMetadata k)
          \<and> resourceUri k = None
          \<and> createConnectionInfo W = Inr ()
          \<and> getServerConnectSettings W = Inr ()
          \<and> (case getContent W doc of
                Inl e \<Rightarrow> False
              | Inr contents \<Rightarrow> JSON_parse D contents = Inr content)
          \<and> createBackingFile W = Inr (Some backingPath))"

text \<open>The calls made before the \<open>try\<close> block is entered.\<close>

definition prologue :: "world \<Rightarrow> nat \<Rightarrow> json \<Rightarrow> jsstring \<Rightarrow> event list" where
  "prologue W doc content backingPath =
     (case kernelProvider_get W doc of
        None \<Rightarrow> []
      | Some k0 \<Rightarrow> (case kernel_session k0 of None \<Rightarrow> [KernelStart] | Some s \<Rightarrow> []))
     @ [CreateConnectionInfo, GetServerConnectSettings, GetContent doc, CreateBackingFile,
        ContentsSave backingPath content]"

text \<open>\<open>call_throws D W doc k kc format backingPath target e\<close>: the \<open>try\<close> block of the call
  throws \<open>e\<close>, and \<open>e\<close> is what the caller receives when the cleanup that follows does not
  itself fail.\<close>

definition call_throws :: "deps \<Rightarrow> world \<Rightarrow> nat \<Rightarrow> kernel \<Rightarrow> kernelConnection \<Rightarrow> ExportFormat
    \<Rightarrow> jsstring \<Rightarrow> jsstring \<Rightarrow> error \<Rightarrow> bool" where
  "call_throws D W doc k kc format backingPath target e =
     (snd (fst (try_block D W k kc format backingPath target)) = Inl e
      \<and> (contents_delete_temp W = Inr () \<and> backingFile_dispose W = Inr ()
           \<longrightarrow> snd (executeCommand D W doc target format) = Inl e))"

text \<open>
  \<open>invokeWithFileSynced\<close>. The handler is the caller's: given the file handle it makes
  calls of its own and resolves or rejects. \<open>resource\<close> is a \<open>Uri | undefined\<close>.
\<close>

definition invokeWithFileSynced :: "deps \<Rightarrow> world \<Rightarrow> jsstring option \<Rightarrow> jsstring
    \<Rightarrow> (jsstring \<Rightarrow> unit io) \<Rightarrow> unit io" where
  "invokeWithFileSynced D W resource contents handler =
     (case resource of
        None \<Rightarrow> ([], Inr ())
      | Some uri \<Rightarrow>
          await CreateBackingFile (createBackingFile W)
            (\<lambda>backingFile.
               case backingFile of
                 None \<Rightarrow> ([], Inr ())
               | Some backingPath \<Rightarrow>
                   (case JSON_parse D contents of
                      Inl e \<Rightarrow> ([], Inl e)
                    | Inr content \<Rightarrow>
                        await_catch_noop (ContentsSave backingPath content) (contents_save W)
                          (case handler backingPath of
                             (t, Inl e) \<Rightarrow> (Handler backingPath # t, Inl e)
                           | (t, Inr u) \<Rightarrow>
                               (case await BackingFileDispose (backingFile_dispose W)
                                       (\<lambda>u. await_catch_noop (ContentsDelete backingPath)
                                               (contents_delete_backing W) ([], Inr ())) of
                                  (t', r) \<Rightarrow> (Handler backingPath # t @ t', r))))))"

section \<open>ConnectionDisplayDataProvider\<close>

text \<open>
  A \<open>ConnectionDisplayData\<close> object. \<open>cdd_id\<close> is the connection id it was built with and
  \<open>changes\<close> counts the calls of \<open>triggerChange\<close>.
\<close>

record ConnectionDisplayData =
  cdd_id :: jsstring
  label :: jsstring
  description :: jsstring
  detail :: jsstring
  category :: jsstring
  serverDisplayName :: "jsstring option"
  changes :: nat

text \<open>The helpers that compute the presentational fields are parameters.\<close>

record display_deps =
  getDisplayNameOrNameOfKernelConnection :: "connection \<Rightarrow> jsstring"
  getKernelConnectionDisplayPath :: "connection \<Rightarrow> jsstring"
  getRemoteKernelSessionInformation :: "connection \<Rightarrow> jsstring"
  getKernelConnectionCategorySync :: "connection \<Rightarrow> jsstring"

datatype disposable = DisplayDataObject nat | InterpreterListener nat

text \<open>A promise whose \<open>then\<close> callback closes over the entry \<open>details\<close>.\<close>

datatype task = ServerDisplayNameTask nat | CategoryTask nat

text \<open>
  The provider's state. Objects live in \<open>objects\<close> and a reference to an object is its
  index there, so that two references are the same object exactly when they are equal.
  \<open>details\<close> is the \<open>Map\<close> from connection id to entry. \<open>listeners\<close> holds the handlers
  registered with \<open>onDidChangeInterpreter\<close>, each with the connection and the entry its
  closure captured.
\<close>

record provider_state =
  details :: "jsstring \<rightharpoonup> nat"
  objects :: "ConnectionDisplayData list"
  disposables :: "disposable list"
  listeners :: "(connection \<times> nat) list"
  pending :: "task list"

definition initial_state :: provider_state where
  "initial_state =
     \<lparr>details = Map.empty, objects = [], disposables = [], listeners = [], pending = []\<rparr>"

text \<open>Lines 321 to 367: the branch taken when the map has no entry for the id. It yields
  the new entry.\<close>

definition create_details :: "display_deps \<Rightarrow> connection \<Rightarrow> provider_state \<Rightarrow> nat \<times> provider_state" where
  "create_details D connection st =
     (let newDetails = length (objects st);
          obj = \<lparr>cdd_id = conn_id connection,
                 label = getDisplayNameOrNameOfKernelConnection D connection,
                 description = getKernelConnectionDisplayPath D connection,
                 detail = (if kind connection = connectToLiveRemoteKernel
                           then getRemoteKernelSessionInformation D connection else []),
                 category = getKernelConnectionCategorySync D connection,
                 serverDisplayName = None,
                 changes = 0\<rparr>;
          st1 = st\<lparr>objects := objects st @ [obj],
                    disposables := disposables st @ [DisplayDataObject newDetails],
                    details := (details st)(conn_id connection \<mapsto> newDetails)\<rparr>
      in if kind connection = startUsingPythonInterpreter
            \<and> (case interpreter connection of None \<Rightarrow> False | Some i \<Rightarrow> isCondaEnvWithoutPython i)
         then (newDetails,
               st1\<lparr>listeners := listeners st1 @ [(connection, newDetails)],
                    disposables := disposables st1 @ [InterpreterListener (length (listeners st1))]\<rparr>)
         else (newDetails, st1))"

text \<open>Lines 369 to 394: the entry is read back from the map, stored again under the same
  id, the two refreshes are started, and the entry is returned.\<close>

definition refresh_and_return :: "connection \<Rightarrow> nat \<Rightarrow> provider_state \<Rightarrow> nat \<times> provider_state" where
  "refresh_and_return connection d st =
     (let st1 = st\<lparr>details := (details st)(conn_id connection \<mapsto> d)\<rparr>;
          st2 = (if kind connection = connectToLiveRemoteKernel
                    \<or> kind connection = startUsingRemoteKernelSpec
                 then st1\<lparr>pending := pending st1 @ [ServerDisplayNameTask d]\<rparr>
                 else st1)
      in (d, st2\<lparr>pending := pending st2 @ [CategoryTask d]\<rparr>))"

definition getDisplayData :: "display_deps \<Rightarrow> connection \<Rightarrow> provider_state \<Rightarrow> nat \<times> provider_state" where
  "getDisplayData D connection st =
     (case details st (conn_id connection) of
        None \<Rightarrow>
          (case create_details D connection st of
             (newDetails, st1) \<Rightarrow> refresh_and_return connection newDetails st1)
      | Some d \<Rightarrow> refresh_and_return connection d st)"

text \<open>Writing a field of the object behind a reference.\<close>

definition update_object :: "nat \<Rightarrow> (ConnectionDisplayData \<Rightarrow> ConnectionDisplayData)
    \<Rightarrow> provider_state \<Rightarrow> provider_state" where
  "update_object d f st =
     (if d < length (objects st) then st\<lparr>objects := (objects st)[d := f (objects st ! d)]\<rparr> else st)"

definition triggerChange :: "ConnectionDisplayData \<Rightarrow> ConnectionDisplayData" where
  "triggerChange obj = obj\<lparr>changes := Suc (changes obj)\<rparr>"

text \<open>Lines 374 to 381: the callback of \<open>getRemoteServerDisplayName(...).then\<close>.\<close>

definition serverDisplayName_resolved :: "nat \<Rightarrow> jsstring \<Rightarrow> provider_state \<Rightarrow> provider_state" where
  "serverDisplayName_resolved d displayName st =
     update_object d
       (\<lambda>obj. if serverDisplayName obj \<noteq> Some displayName
              then triggerChange (obj\<lparr>serverDisplayName := Some displayName\<rparr>)
              else obj) st"

text \<open>Lines 386 to 391: the callback of \<open>getKernelConnectionCategory(...).then\<close>.\<close>

definition category_resolved :: "nat \<Rightarrow> jsstring \<Rightarrow> provider_state \<Rightarrow> provider_state" where
  "category_resolved d kind' st =
     update_object d
       (\<lambda>obj. if category obj \<noteq> kind' then triggerChange (obj\<lparr>category := kind'\<rparr>) else obj) st"

text \<open>Lines 332 to 361: \<open>updateInterpreterInfo([e])\<close> for one registered listener, with the
  resolved environments of the interpreter service at that moment. It yields the
  connection, which \<open>updateInterpreter\<close> may have changed, and the state.\<close>

definition updateInterpreterInfo :: "display_deps \<Rightarrow> interpreter list \<Rightarrow> interpreter
    \<Rightarrow> connection \<times> nat \<Rightarrow> provider_state \<Rightarrow> connection \<times> provider_state" where
  "updateInterpreterInfo D resolvedEnvironments e l st =
     (case l of (connection, newDetails) \<Rightarrow>
        (let changedEnv = find (\<lambda>env. Some (env_id env) = map_option env_id (interpreter connection)) [e];
             found = find (\<lambda>env. Some (env_id env) = map_option env_id changedEnv) resolvedEnvironments
         in case found of
              None \<Rightarrow> (connection, st)
            | Some i \<Rightarrow>
                if kind connection = startUsingPythonInterpreter
                then (let connection' = connection\<lparr>interpreter := Some i\<rparr>;
                          newLabel = getDisplayNameOrNameOfKernelConnection D connection';
                          newDescription = getKernelConnectionDisplayPath D connection';
                          newCategory = getKernelConnectionCategorySync D connection'
                      in (connection',
                          update_object newDetails
                            (\<lambda>obj. if newLabel \<noteq> label obj \<or> newDescription \<noteq> description obj
                                      \<or> newCategory \<noteq> category obj
                                   then triggerChange
                                          (obj\<lparr>label := newLabel, description := newDescription,
                                               category := newCategory\<rparr>)
                                   else obj) st))
                else (connection, st)))"

text \<open>The interpreter service fires \<open>onDidChangeInterpreter\<close>: every listener runs
  \<open>(e) => (e ? updateInterpreterInfo([e]) : undefined)\<close>.\<close>

fun run_listeners :: "display_deps \<Rightarrow> interpreter list \<Rightarrow> interpreter
    \<Rightarrow> (connection \<times> nat) list \<Rightarrow> provider_state \<Rightarrow> (connection \<times> nat) list \<times> provider_state" where
  "run_listeners D envs e [] st = ([], st)"
| "run_listeners D envs e (l # ls) st =
     (case updateInterpreterInfo D envs e l st of
        (connection', st1) \<Rightarrow>
          (case run_listeners D envs e ls st1 of
             (ls', st2) \<Rightarrow> ((connection', snd l) # ls', st2)))"

definition interpreter_changed :: "display_deps \<Rightarrow> interpreter list \<Rightarrow> interpreter option
    \<Rightarrow> provider_state \<Rightarrow> provider_state" where
  "interpreter_changed D envs e st =
     (case e of
        None \<Rightarrow> st
      | Some env \<Rightarrow>
          (case run_listeners D envs env (listeners st) st of
             (ls', st1) \<Rightarrow> st1\<lparr>listeners := ls'\<rparr>))"

text \<open>What can happen to the provider during the life of the process: a call of
  \<open>getDisplayData\<close>, a refresh promise that resolves with a value (one that rejects runs
  \<open>noop\<close>), and an interpreter change. The callbacks may run in any order and for any
  entry.\<close>

datatype action =
    GetDisplayData connection
  | ServerDisplayNameResolved nat jsstring
  | CategoryResolved nat jsstring
  | RefreshRejected
  | InterpreterChanged "interpreter list" "interpreter option"

fun step :: "display_deps \<Rightarrow> action \<Rightarrow> provider_state \<Rightarrow> provider_state" where
  "step D (GetDisplayData connection) st = snd (getDisplayData D connection st)"
| "step D (ServerDisplayNameResolved d displayName) st = serverDisplayName_resolved d displayName st"
| "step D (CategoryResolved d k) st = category_resolved d k st"
| "step D RefreshRejected st = st"
| "step D (InterpreterChanged envs e) st = interpreter_changed D envs e st"

fun run :: "display_deps \<Rightarrow> action list \<Rightarrow> provider_state \<Rightarrow> provider_state" where
  "run D [] st = st"
| "run D (a # as) st = run D as (step D a st)"

text \<open>\<open>agree m ids\<close>: the map \<open>m\<close> and the list \<open>ids\<close> of the ids the objects were built with
  agree. The map sends an id only to an object built with that id, and every object is
  the entry of its id.\<close>

definition agree :: "(jsstring \<rightharpoonup> nat) \<Rightarrow> jsstring list \<Rightarrow> bool" where
  "agree m ids =
     ((\<forall>k d. m k = Some d \<longrightarrow> d < length ids \<and> ids ! d = k)
      \<and> (\<forall>d < length ids. m (ids ! d) = Some d))"

definition consistent :: "provider_state \<Rightarrow> bool" where
  "consistent st = agree (details st) (map cdd_id (objects st))"

section \<open>JupyterServerSelector\<close>

text \<open>A thrown value: \<open>message\<close> is \<open>err.message\<close>, \<open>toString\<close> is \<open>err.toString()\<close>, and
  \<open>isInvalidPasswordError\<close> is \<open>err instanceof JupyterInvalidPasswordError\<close>.\<close>

record thrown =
  message :: "jsstring option"
  toString :: jsstring
  isInvalidPasswordError :: bool

record provider_handle =
  provider_id :: jsstring
  handle :: jsstring

type_synonym uri_store = "provider_handle list"

text \<open>The error classifiers, the id generator, the experiment flag and the localized
  strings are parameters.\<close>

record selector_deps =
  isSelfCertsError :: "thrown \<Rightarrow> bool"
  isSelfCertsExpiredError :: "thrown \<Rightarrow> bool"
  generateIdFromRemoteProvider :: "provider_handle \<Rightarrow> jsstring"
  inExperiment_PasswordManager :: bool
  jupyterSelfCertFailErrorMessageOnly :: jsstring
  jupyterSelfCertExpiredErrorMessageOnly :: jsstring
  passwordFailure :: jsstring
  remoteJupyterConnectionFailedWithoutServerWithErrorWeb :: "jsstring \<Rightarrow> jsstring"
  remoteJupyterConnectionFailedWithoutServerWithError :: "jsstring \<Rightarrow> jsstring"

text \<open>What each call on a collaborator settles with. \<open>storage_add\<close> is
  \<open>serverUriStorage.add\<close>: given the provider and the store it yields its outcome and the
  store it leaves.\<close>

record selector_world =
  validateRemoteUri :: "thrown + unit"
  handleSelfCertsError :: "thrown + bool"
  handleExpiredCertsError :: "thrown + bool"
  handleError :: "thrown + unit"
  storage_add :: "provider_handle \<Rightarrow> uri_store \<Rightarrow> (thrown + unit) \<times> uri_store"

text \<open>\<open>ValidateRemoteUri provider serverUri\<close> is a call of \<open>validateRemoteUri\<close>; the second
  argument is \<open>undefined\<close> when the call passes the provider alone.\<close>

datatype selector_event =
    ValidateRemoteUri provider_handle "jsstring option"
  | TraceWarning
  | TraceError
  | SendTelemetry
  | HandleSelfCertsError "jsstring option"
  | HandleExpiredCertsError "jsstring option"
  | HandleError jsstring provider_handle thrown
  | StorageAdd provider_handle

type_synonym 'a sel = "(selector_event list \<times> (thrown + 'a)) \<times> uri_store"

text \<open>Line 130 and line 142: \<open>await this.serverUriStorage.add(provider)\<close>, after the calls
  \<open>evs\<close>.\<close>

definition add_to_store :: "selector_world \<Rightarrow> selector_event list \<Rightarrow> provider_handle
    \<Rightarrow> uri_store \<Rightarrow> unit sel" where
  "add_to_store W evs provider st =
     (case storage_add W provider st of
        (r, st') \<Rightarrow> ((evs @ [StorageAdd provider], r), st'))"

definition addJupyterServerOld :: "selector_deps \<Rightarrow> selector_world \<Rightarrow> provider_handle
    \<Rightarrow> uri_store \<Rightarrow> unit sel" where
  "addJupyterServerOld D W provider st =
     (let userURI = generateIdFromRemoteProvider D provider in
      case validateRemoteUri W of
        Inr u \<Rightarrow> add_to_store W [ValidateRemoteUri provider None] provider st
      | Inl err \<Rightarrow>
          if isSelfCertsError D err
          then (let evs = [ValidateRemoteUri provider None, SendTelemetry, HandleSelfCertsError (message err)] in
                case handleSelfCertsError W of
                  Inl e \<Rightarrow> ((evs, Inl e), st)
                | Inr handled \<Rightarrow>
                    if \<not> handled then ((evs, Inr ()), st)
                    else add_to_store W evs provider st)
          else if isSelfCertsExpiredError D err
          then (let evs = [ValidateRemoteUri provider None, SendTelemetry, HandleExpiredCertsError (message err)] in
                case handleExpiredCertsError W of
                  Inl e \<Rightarrow> ((evs, Inl e), st)
                | Inr handled \<Rightarrow>
                    if \<not> handled then ((evs, Inr ()), st)
                    else add_to_store W evs provider st)
          else if isInvalidPasswordError err
          then (([ValidateRemoteUri provider None], Inr ()), st)
          else (case handleError W of
                  Inl e \<Rightarrow> (([ValidateRemoteUri provider None, HandleError userURI provider err], Inl e), st)
                | Inr u \<Rightarrow> (([ValidateRemoteUri provider None, HandleError userURI provider err], Inr ()), st)))"

definition addJupyterServerNew :: "selector_deps \<Rightarrow> selector_world \<Rightarrow> provider_handle
    \<Rightarrow> uri_store \<Rightarrow> unit sel" where
  "addJupyterServerNew D W provider st =
     (case validateRemoteUri W of
        Inr u \<Rightarrow> add_to_store W [ValidateRemoteUri provider None] provider st
      | Inl err \<Rightarrow> (([ValidateRemoteUri provider None, TraceError], Inr ()), st))"

definition addJupyterServer :: "selector_deps \<Rightarrow> selector_world \<Rightarrow> provider_handle
    \<Rightarrow> uri_store \<Rightarrow> unit sel" where
  "addJupyterServer D W provider st =
     (if inExperiment_PasswordManager D then addJupyterServerNew D W provider st
      else addJupyterServerOld D W provider st)"

text \<open>
  The regular expression \<open>/(https?:\/\/[^\s]+)/g\<close>. \<open>match_url s\<close> tries a match at the
  start of \<open>s\<close> and yields the matched text and the rest: the scheme, then the longest
  run of characters that are not whitespace, which must not be empty.
\<close>

definition url_scheme :: "jsstring \<Rightarrow> jsstring option" where
  "url_scheme s =
     (if startsWith s (js ''https://'') then Some (js ''https://'')
      else if startsWith s (js ''http://'') then Some (js ''http://'')
      else None)"

definition match_url :: "jsstring \<Rightarrow> (jsstring \<times> jsstring) option" where
  "match_url s =
     (case url_scheme s of
        None \<Rightarrow> None
      | Some scheme \<Rightarrow>
          (let r = drop (length scheme) s;
               body = takeWhile (\<lambda>c. \<not> isWhiteSpace c) r
           in if body = [] then None
              else Some (scheme @ body, dropWhile (\<lambda>c. \<not> isWhiteSpace c) r)))"

text \<open>The replacement callback \<open>(url) => `[${url}](${url})`\<close>.\<close>

definition markdown_link :: "jsstring \<Rightarrow> jsstring" where
  "markdown_link url = js ''['' @ url @ js '']('' @ url @ js '')''"

text \<open>\<open>message.replace(urlRegex, callback)\<close> with the global flag: the matches are found
  from left to right, each search starting where the last match ended.\<close>

function replace_urls :: "jsstring \<Rightarrow> jsstring" where
  "replace_urls [] = []"
| "replace_urls (c # cs) =
     (case match_url (c # cs) of
        Some (url, rest) \<Rightarrow> markdown_link url @ replace_urls rest
      | None \<Rightarrow> c # replace_urls cs)"
  by pat_completeness auto
termination
proof (relation "measure length")
  show "wf (measure length)" by simp
next
  fix c :: nat and cs x2 url rest
  assume "match_url (c # cs) = Some x2" and "(url, rest) = x2"
  then have "rest = dropWhile (\<lambda>c. \<not> isWhiteSpace c) (drop (length (the (url_scheme (c # cs)))) (c # cs))"
    by (auto simp: match_url_def Let_def split: option.splits if_splits)
  then have "length rest \<le> length (c # cs) - length (the (url_scheme (c # cs)))"
    by (metis length_drop length_dropWhile_le)
  moreover have "the (url_scheme (c # cs)) \<noteq> []"
    using \<open>match_url (c # cs) = Some x2\<close>
    by (auto simp: match_url_def url_scheme_def js_def split: option.splits if_splits)
  ultimately show "(rest, c # cs) \<in> measure length"
    by (cases "the (url_scheme (c # cs))") auto
next
  fix c :: nat and cs
  show "(cs, c # cs) \<in> measure length" by simp
qed

declare replace_urls.simps [simp del]

text \<open>\<open>err.message || err.toString()\<close>.\<close>

definition error_text :: "thrown \<Rightarrow> jsstring" where
  "error_text err =
     (case message err of
        None \<Rightarrow> toString err
      | Some m \<Rightarrow> if m \<noteq> [] then m else toString err)"

definition validateSelectJupyterURI :: "selector_deps \<Rightarrow> selector_world \<Rightarrow> bool
    \<Rightarrow> provider_handle \<Rightarrow> jsstring \<Rightarrow> selector_event list \<times> (thrown + jsstring option)" where
  "validateSelectJupyterURI D W isWebExtension provider serverUri =
     (case validateRemoteUri W of
        Inr u \<Rightarrow> ([ValidateRemoteUri provider (Some serverUri)], Inr None)
      | Inl err \<Rightarrow>
          if isSelfCertsError D err
          then (let evs = [ValidateRemoteUri provider (Some serverUri), TraceWarning, SendTelemetry,
                           HandleSelfCertsError (message err)] in
                case handleSelfCertsError W of
                  Inl e \<Rightarrow> (evs, Inl e)
                | Inr handled \<Rightarrow>
                    if \<not> handled then (evs, Inr (Some (jupyterSelfCertFailErrorMessageOnly D)))
                    else (evs, Inr None))
          else if isSelfCertsExpiredError D err
          then (let evs = [ValidateRemoteUri provider (Some serverUri), TraceWarning, SendTelemetry,
                           HandleExpiredCertsError (message err)] in
                case handleExpiredCertsError W of
                  Inl e \<Rightarrow> (evs, Inl e)
                | Inr handled \<Rightarrow>
                    if \<not> handled then (evs, Inr (Some (jupyterSelfCertExpiredErrorMessageOnly D)))
                    else (evs, Inr None))
          else if isInvalidPasswordError err
          then ([ValidateRemoteUri provider (Some serverUri), TraceWarning], Inr (Some (passwordFailure D)))
          else (let errorMessage = replace_urls (error_text err) in
                ([ValidateRemoteUri provider (Some serverUri), TraceWarning],
                 Inr (Some ((if isWebExtension
                             then remoteJupyterConnectionFailedWithoutServerWithErrorWeb D
                             else remoteJupyterConnectionFailedWithoutServerWithError D) errorMessage)))))"

text \<open>A URL as the regular expression reads it: \<open>http://\<close> or \<open>https://\<close>, then one or more
  characters, none of them whitespace.\<close>

definition is_url :: "jsstring \<Rightarrow> bool" where
  "is_url u =
     (case url_scheme u of
        None \<Rightarrow> False
      | Some scheme \<Rightarrow>
          drop (length scheme) u \<noteq> [] \<and> list_all (\<lambda>c. \<not> isWhiteSpace c) (drop (length scheme) u))"

text \<open>No URL starts at any of the first \<open>n\<close> positions of \<open>s\<close>.\<close>

definition no_url_starts :: "nat \<Rightarrow> jsstring \<Rightarrow> bool" where
  "no_url_starts n s = list_all (\<lambda>i. match_url (drop i s) = None) [0..<n]"

section \<open>Example environments\<close>

text \<open>Concrete dependencies and environments, on which the theorems below are
  evaluated.\<close>

text \<open>A base64 decoder for the examples, after the forgiving-base64 decoding of the
  platform: padding is dropped, a character outside the alphabet is an error, and every
  four characters give three bytes.\<close>

definition b64_value :: "nat \<Rightarrow> nat option" where
  "b64_value c =
     (if 65 \<le> c \<and> c \<le> 90 then Some (c - 65)
      else if 97 \<le> c \<and> c \<le> 122 then Some (c - 71)
      else if 48 \<le> c \<and> c \<le> 57 then Some (c + 4)
      else if c = 43 then Some 62
      else if c = 47 then Some 63
      else None)"

fun b64_groups :: "nat list \<Rightarrow> nat list" where
  "b64_groups (a # b # c # d # rest) =
     [a * 4 + b div 16, (b mod 16) * 16 + c div 4, (c mod 4) * 64 + d] @ b64_groups rest"
| "b64_groups [a, b, c] = [a * 4 + b div 16, (b mod 16) * 16 + c div 4]"
| "b64_groups [a, b] = [a * 4 + b div 16]"
| "b64_groups rest = []"

definition strip_padding :: "jsstring \<Rightarrow> jsstring" where
  "strip_padding s =
     (if length s mod 4 = 0 \<and> s \<noteq> [] \<and> last s = 61
      then (if butlast s \<noteq> [] \<and> last (butlast s) = 61 then butlast (butlast s) else butlast s)
      else s)"

definition example_atob :: "jsstring \<Rightarrow> error + jsstring" where
  "example_atob s =
     (let t = strip_padding s in
      if length t mod 4 = 1 \<or> list_ex (\<lambda>c. b64_value c = None) t
      then Inl (Error (js ''InvalidCharacterError''))
      else Inr (b64_groups (map (\<lambda>c. case b64_value c of None \<Rightarrow> 0 | Some v \<Rightarrow> v) t)))"

definition example_deps :: deps where
  "example_deps =
     \<lparr>isRemoteConnection =
        (\<lambda>c. kind c = connectToLiveRemoteKernel \<or> kind c = startUsingRemoteKernelSpec),
      concatMultilineString = (\<lambda>m. case m of Single s \<Rightarrow> s | Multi xs \<Rightarrow> concat xs),
      basename = (\<lambda>p. rev (takeWhile (\<lambda>c. c \<noteq> 47) (rev p))),
      formatName = (\<lambda>f. case f of pdf \<Rightarrow> js ''pdf'' | html \<Rightarrow> js ''html'' | python \<Rightarrow> js ''python''),
      JSON_parse = (\<lambda>s. Inr (Json s)),
      atob = example_atob\<rparr>"

text \<open>A remote kernel that has no session yet and no resource.\<close>

definition example_kernel :: kernel where
  "example_kernel =
     \<lparr>kernel_session = None,
      kernelConnectionMetadata =
        \<lparr>conn_id = js ''k1'', kind = startUsingRemoteKernelSpec, interpreter = None\<rparr>,
      resourceUri = None\<rparr>"

text \<open>The same kernel once it has a session with a kernel handle.\<close>

definition started_kernel :: kernel where
  "started_kernel = example_kernel\<lparr>kernel_session := Some \<lparr>session_kernel = Some 1\<rparr>\<rparr>"

definition example_stream :: IOutput where
  "example_stream =
     \<lparr>output_type = js ''stream'', stream_name = Some (js ''stderr''),
      stream_text = Single (js '' converting ''), data_text_plain = None\<rparr>"

text \<open>Every call resolves; the working-directory probe yields no output.\<close>

definition example_world :: world where
  "example_world =
     \<lparr>kernelProvider_get = (\<lambda>d. Some example_kernel),
      kernel_start = Inr (Some \<lparr>session_kernel = Some 1\<rparr>),
      createConnectionInfo = Inr (),
      getServerConnectSettings = Inr (),
      getContent = (\<lambda>d. Inr (js ''{}'')),
      createBackingFile = Inr (Some (js ''nb.ipynb'')),
      contents_save = Inr (),
      execute_getcwd = Inr [],
      contents_newUntitled = Inr (js ''untitled.html''),
      execute_nbconvert = Inr [example_stream],
      contents_get = Inr (js ''<html/>''),
      fs_writeFile = Inr (),
      contents_delete_temp = Inr (),
      backingFile_dispose = Inr (),
      contents_delete_backing = Inr ()\<rparr>"

text \<open>The conversion command prints a Python traceback.\<close>

definition traceback_stream :: IOutput where
  "traceback_stream =
     \<lparr>output_type = js ''stream'', stream_name = Some (js ''stdout''),
      stream_text = Multi [js '' Traceback (most recent call last):'', js '' ValueError ''],
      data_text_plain = None\<rparr>"

definition traceback_world :: world where
  "traceback_world = example_world\<lparr>execute_nbconvert := Inr [traceback_stream]\<rparr>"

text \<open>The conversion command prints nothing.\<close>

definition silent_world :: world where
  "silent_world = example_world\<lparr>execute_nbconvert := Inr []\<rparr>"

text \<open>The same, but the deletion of the temporary output file is rejected.\<close>

definition failing_delete_world :: world where
  "failing_delete_world = example_world\<lparr>contents_delete_temp := Inl (Rejected (js ''404''))\<rparr>"

text \<open>A server with a self-signed certificate, and a user who declines to trust it.\<close>

definition self_signed_error :: thrown where
  "self_signed_error =
     \<lparr>message = Some (js ''reason: self signed certificate''),
      toString = js ''FetchError: reason: self signed certificate'',
      isInvalidPasswordError = False\<rparr>"

definition example_selector_deps :: selector_deps where
  "example_selector_deps =
     \<lparr>isSelfCertsError =
        (\<lambda>err. case message err of
                  None \<Rightarrow> False
                | Some m \<Rightarrow> includes_str m (js ''reason: self signed certificate'')),
      isSelfCertsExpiredError =
        (\<lambda>err. case message err of
                  None \<Rightarrow> False
                | Some m \<Rightarrow> includes_str m (js ''reason: certificate has expired'')),
      generateIdFromRemoteProvider = (\<lambda>p. provider_id p @ js '':'' @ handle p),
      inExperiment_PasswordManager = False,
      jupyterSelfCertFailErrorMessageOnly = js ''self-signed certificate'',
      jupyterSelfCertExpiredErrorMessageOnly = js ''expired certificate'',
      passwordFailure = js ''password failure'',
      remoteJupyterConnectionFailedWithoutServerWithErrorWeb = (\<lambda>m. js ''Failed (web): '' @ m),
      remoteJupyterConnectionFailedWithoutServerWithError = (\<lambda>m. js ''Failed: '' @ m)\<rparr>"

definition example_provider :: provider_handle where
  "example_provider = \<lparr>provider_id = js ''p'', handle = js ''h''\<rparr>"

definition declining_world :: selector_world where
  "declining_world =
     \<lparr>validateRemoteUri = Inl self_signed_error,
      handleSelfCertsError = Inr False,
      handleExpiredCertsError = Inr False,
      handleError = Inr (),
      storage_add = (\<lambda>p st. (Inr (), p # st))\<rparr>"

text \<open>A server that cannot be reached: the error names two addresses.\<close>

definition unreachable_error :: thrown where
  "unreachable_error =
     \<lparr>message = Some (js ''no http://a.b or https://c here''),
      toString = js ''Error: no http://a.b or https://c here'',
      isInvalidPasswordError = False\<rparr>"

definition unreachable_world :: selector_world where
  "unreachable_world = declining_world\<lparr>validateRemoteUri := Inl unreachable_error\<rparr>"

text \<open>A server that accepts the connection.\<close>

definition reachable_world :: selector_world where
  "reachable_world = declining_world\<lparr>validateRemoteUri := Inr ()\<rparr>"

text \<open>Two connections, and a run of the provider between two calls for the first.\<close>

definition example_display_deps :: display_deps where
  "example_display_deps =
     \<lparr>getDisplayNameOrNameOfKernelConnection =
        (\<lambda>c. case interpreter c of None \<Rightarrow> js ''Python 3'' | Some i \<Rightarrow> env_id i),
      getKernelConnectionDisplayPath = (\<lambda>c. js ''/usr/bin/python''),
      getRemoteKernelSessionInformation = (\<lambda>c. js ''1 connection''),
      getKernelConnectionCategorySync = (\<lambda>c. js ''Remote'')\<rparr>"

definition remote_connection :: connection where
  "remote_connection =
     \<lparr>conn_id = js ''k1'', kind = startUsingRemoteKernelSpec, interpreter = None\<rparr>"

definition conda_connection :: connection where
  "conda_connection =
     \<lparr>conn_id = js ''k2'', kind = startUsingPythonInterpreter,
      interpreter = Some \<lparr>env_id = js ''env'', isCondaEnvWithoutPython = True\<rparr>\<rparr>"

definition example_actions :: "action list" where
  "example_actions =
     [GetDisplayData conda_connection,
      CategoryResolved 0 (js ''Jupyter''),
      ServerDisplayNameResolved 0 (js ''my server''),
      InterpreterChanged [\<lparr>env_id = js ''env'', isCondaEnvWithoutPython = False\<rparr>]
        (Some \<lparr>env_id = js ''env'', isCondaEnvWithoutPython = False\<rparr>),
      RefreshRejected]"

section \<open>Properties of b64toBlob\<close>

lemma byteNumbers_id: "byteNumbers sl = sl"
  by (simp add: byteNumbers_def map_nth)

lemma b64_loop_concat:
  "concat (b64_loop bc offset arrs) = concat arrs @ map of_nat (drop offset bc)"
proof (induction bc offset arrs rule: b64_loop.induct)
  case (1 bc offset arrs)
  show ?case
  proof (cases "offset < length bc")
    case True
    have split: "drop offset bc = take sliceSize (drop offset bc) @ drop (offset + sliceSize) bc"
      by (metis add.commute append_take_drop_id drop_drop)
    have "concat (b64_loop bc offset arrs) =
            concat (b64_loop bc (offset + sliceSize)
              (arrs @ [Uint8Array (byteNumbers (slice_str bc offset (offset + sliceSize)))]))"
      using True by (subst b64_loop.simps) simp
    also have "\<dots> = concat arrs @ map of_nat (take sliceSize (drop offset bc))
                       @ map of_nat (drop (offset + sliceSize) bc)"
      using "1.IH" [OF True] by (simp add: Uint8Array_def byteNumbers_id slice_str_def)
    also have "\<dots> = concat arrs @ map of_nat (drop offset bc)"
      using split by (metis map_append)
    finally show ?thesis .
  next
    case False
    then show ?thesis by (subst b64_loop.simps) simp
  qed
qed

text \<open>
  C9. For every payload string and every base64 decoder, \<open>b64toBlob\<close> yields the bytes
  (or the decoder's error) that decoding the stripped string in one pass yields: the
  512-character slices leave no trace in the blob.
\<close>

theorem b64toBlob_chunking_unobservable:
  "b64toBlob decoder b64Data = decode_single_pass decoder (strip_space (strip_prefix b64Data))"
  by (simp add: b64toBlob_def decode_single_pass_def b64_loop_concat split: sum.splits)

theorem b64toBlob_chunking_unobservable_witness:
  "b64toBlob example_atob (js ''data:application/pdf;base64,JVBE Ri0='')
     = Inr [37, 80, 68, 70, 45]"
  using b64toBlob_chunking_unobservable [of example_atob "js ''data:application/pdf;base64,JVBE Ri0=''"]
  by (simp add: decode_single_pass_def strip_space_def strip_prefix_def example_atob_def
      strip_padding_def b64_value_def js_def isWhiteSpace_def)

section \<open>Properties of the export\<close>

lemmas export_defs =
  executeCommand_def export_with_kernel_def stage_and_convert_def try_finally_def try_block_def
  getCWD_def convert_def check_output_def parseStreamOutput_def isExportFailed_def
  fetch_and_write_def finally_block_def dispose_backing_def nbconvert_command_def
  source_path_def template_def fileExt_def await_def await_catch_noop_def

lemmas example_defs = example_deps_def example_kernel_def example_world_def example_stream_def
  started_kernel_def

subsection \<open>What the try block and the finally block call\<close>

lemma check_output_no_cleanup:
  "check_output D format outputs = (t, r) \<Longrightarrow> filter is_cleanup t = []"
  by (auto simp: check_output_def Let_def split: option.splits if_splits)

lemma fetch_and_write_no_cleanup:
  "fetch_and_write D W format tempTarget target = (t, r) \<Longrightarrow> filter is_cleanup t = []"
  by (auto simp: fetch_and_write_def await_def split: sum.splits prod.splits if_splits)

lemma convert_no_cleanup:
  "convert D W kc format pwd backingPath tempTarget target = (t, r) \<Longrightarrow> filter is_cleanup t = []"
  by (auto simp: convert_def await_def split: sum.splits prod.splits
      dest: check_output_no_cleanup fetch_and_write_no_cleanup)

lemma getCWD_no_cleanup: "getCWD W k = (t, r) \<Longrightarrow> filter is_cleanup t = []"
  by (auto simp: getCWD_def await_def split: option.splits sum.splits list.splits if_splits)

lemma try_block_no_cleanup:
  "try_block D W k kc format backingPath target = ((t, r), tmp) \<Longrightarrow> filter is_cleanup t = []"
  by (auto simp: try_block_def split: sum.splits prod.splits
      dest: getCWD_no_cleanup convert_no_cleanup)

lemma getCWD_resolves:
  assumes "kernel_session k = Some s" and "session_kernel s = Some kc"
    and "execute_getcwd W = Inr outputs"
  shows "\<exists>pwd. getCWD W k = ([ExecuteSilently kc (js ''import os;os.getcwd();'')], Inr pwd)"
  using assms by (simp add: getCWD_def await_def split: list.splits)

lemma try_block_converts:
  assumes "getCWD W k = (t, Inr pwd)" and "contents_newUntitled W = Inr tempTarget"
  shows "try_block D W k kc format backingPath target =
     ((t @ ContentsNewUntitled (fileExt format)
          # fst (convert D W kc format pwd backingPath tempTarget target),
       snd (convert D W kc format pwd backingPath tempTarget target)), Some tempTarget)"
  using assms by (simp add: try_block_def case_prod_beta)

lemma finally_block_temp_rejected:
  assumes "tempTarget \<noteq> []" and "contents_delete_temp W = Inl e"
  shows "finally_block W backingPath (Some tempTarget) = ([ContentsDelete tempTarget], Inl e)"
  using assms by (simp add: finally_block_def await_def)

lemma finally_block_resolved:
  assumes "contents_delete_temp W = Inr u3" and "backingFile_dispose W = Inr u4"
  shows "finally_block W backingPath tmp =
     ((case tmp of None \<Rightarrow> [] | Some t \<Rightarrow> if t \<noteq> [] then [ContentsDelete t] else [])
        @ [BackingFileDispose, ContentsDelete backingPath, ContentsManagerDispose], Inr ())"
  using assms
  by (simp add: finally_block_def dispose_backing_def await_def await_catch_noop_def
      split: option.splits)

subsection \<open>The call up to the try block\<close>

lemma prologue_no_cleanup: "filter is_cleanup (prologue W doc content backingPath) = []"
  by (simp add: prologue_def split: option.splits)

lemma reaches_try_session:
  assumes "reaches_try D W doc k kc content backingPath"
  shows "\<exists>s. kernel_session k = Some s \<and> session_kernel s = Some kc"
  using assms by (auto simp: reaches_try_def split: option.splits)

lemma export_with_kernel_staged:
  assumes "kernel_session k = Some s" and "session_kernel s = Some kc"
    and "isRemoteConnection D (kernelConnectionMetadata k)" and "resourceUri k = None"
    and "createConnectionInfo W = Inr u1" and "getServerConnectSettings W = Inr u2"
    and "getContent W doc = Inr contents"
    and "createBackingFile W = Inr (Some backingPath)"
    and "JSON_parse D contents = Inr content"
  shows "export_with_kernel D W doc k format target =
     ([CreateConnectionInfo, GetServerConnectSettings, GetContent doc, CreateBackingFile,
       ContentsSave backingPath content]
        @ fst (try_finally (try_block D W k kc format backingPath target) (finally_block W backingPath)),
      snd (try_finally (try_block D W k kc format backingPath target) (finally_block W backingPath)))"
  using assms
  by (simp add: export_with_kernel_def stage_and_convert_def await_def await_catch_noop_def
      case_prod_beta)

lemma executeCommand_reaches_try:
  assumes "reaches_try D W doc k kc content backingPath"
  shows "executeCommand D W doc target format =
     (prologue W doc content backingPath
        @ fst (try_finally (try_block D W k kc format backingPath target) (finally_block W backingPath)),
      snd (try_finally (try_block D W k kc format backingPath target) (finally_block W backingPath)))"
proof -
  obtain k0 where k0: "kernelProvider_get W doc = Some k0"
    using assms by (auto simp: reaches_try_def split: option.splits)
  have st: "started W k0 = Some k"
    using assms k0 by (simp add: reaches_try_def)
  obtain s where s: "kernel_session k = Some s" "session_kernel s = Some kc"
    using reaches_try_session [OF assms] by blast
  obtain contents where c: "getContent W doc = Inr contents" "JSON_parse D contents = Inr content"
    using assms k0 by (auto simp: reaches_try_def split: sum.splits)
  have staged: "export_with_kernel D W doc k format target =
     ([CreateConnectionInfo, GetServerConnectSettings, GetContent doc, CreateBackingFile,
       ContentsSave backingPath content]
        @ fst (try_finally (try_block D W k kc format backingPath target) (finally_block W backingPath)),
      snd (try_finally (try_block D W k kc format backingPath target) (finally_block W backingPath)))"
    using assms k0 by (intro export_with_kernel_staged [OF s _ _ _ _ c(1) _ c(2)])
      (simp_all add: reaches_try_def)
  show ?thesis
  proof (cases "kernel_session k0")
    case None
    then obtain s' where "kernel_start W = Inr s'" "k = k0\<lparr>kernel_session := s'\<rparr>"
      using st by (auto simp: started_def split: sum.splits)
    then show ?thesis
      using k0 None staged by (simp add: executeCommand_def await_def prologue_def)
  next
    case (Some s0)
    then have "k = k0" using st by (simp add: started_def)
    then show ?thesis
      using k0 Some staged by (simp add: executeCommand_def prologue_def)
  qed
qed

subsection \<open>The cleanup\<close>

text \<open>
  When the deletion of the temporary file and the disposal of the backing-file handle
  resolve, the cleanup runs whatever the \<open>try\<close> block did: the caller receives the outcome
  of the \<open>try\<close> block, the temporary file (if one was allocated) is deleted once, and the
  backing file is disposed and deleted once.
\<close>

lemma cleanup_after_try_block:
  assumes "reaches_try D W doc k kc content backingPath"
    and "contents_delete_temp W = Inr u3" and "backingFile_dispose W = Inr u4"
  shows "snd (executeCommand D W doc target format)
           = snd (fst (try_block D W k kc format backingPath target))
       \<and> filter is_cleanup (fst (executeCommand D W doc target format))
           = (case snd (try_block D W k kc format backingPath target) of
                None \<Rightarrow> []
              | Some t \<Rightarrow> if t \<noteq> [] then [ContentsDelete t] else [])
             @ [BackingFileDispose, ContentsDelete backingPath, ContentsManagerDispose]
       \<and> set (fst (fst (try_block D W k kc format backingPath target)))
           \<subseteq> set (fst (executeCommand D W doc target format))"
proof -
  obtain t1 r1 tmp where tb: "try_block D W k kc format backingPath target = ((t1, r1), tmp)"
    by (metis prod.collapse)
  have nc: "filter is_cleanup t1 = []"
    using try_block_no_cleanup [OF tb] .
  have tf: "try_finally (try_block D W k kc format backingPath target) (finally_block W backingPath)
          = (t1 @ (case tmp of None \<Rightarrow> [] | Some t \<Rightarrow> if t \<noteq> [] then [ContentsDelete t] else [])
               @ [BackingFileDispose, ContentsDelete backingPath, ContentsManagerDispose], r1)"
    using tb finally_block_resolved [OF assms(2,3)] by (simp add: try_finally_def)
  show ?thesis
    using executeCommand_reaches_try [OF assms(1), of target format] tf tb nc prologue_no_cleanup
    by (auto split: option.splits)
qed

text \<open>
  C1. The cleanup of \<open>executeCommand\<close> does not swallow every failed deletion. When the
  call has created its backing file and allocated a temporary output file, and the
  deletion of the temporary output file is rejected, the rejection is what the caller
  receives, and the only cleanup call made is that deletion: the backing file is neither
  disposed nor deleted, and the contents manager is not disposed. (The deletion of the
  backing file two lines later is followed by \<open>catch(noop)\<close>; this one is not.)
\<close>

theorem temp_delete_rejection_surfaces:
  assumes "reaches_try D W doc k kc content backingPath"
    and "execute_getcwd W = Inr outputs"
    and "contents_newUntitled W = Inr tempTarget" and "tempTarget \<noteq> []"
    and "contents_delete_temp W = Inl e"
  shows "snd (executeCommand D W doc target format) = Inl e
       \<and> filter is_cleanup (fst (executeCommand D W doc target format)) = [ContentsDelete tempTarget]"
proof -
  obtain s where s: "kernel_session k = Some s" "session_kernel s = Some kc"
    using reaches_try_session [OF assms(1)] by blast
  obtain pwd where cwd: "getCWD W k = ([ExecuteSilently kc (js ''import os;os.getcwd();'')], Inr pwd)"
    using getCWD_resolves [OF s assms(2)] by blast
  note tb = try_block_converts [OF cwd assms(3), of D kc format backingPath target]
  have nc: "filter is_cleanup (fst (fst (try_block D W k kc format backingPath target))) = []"
    using try_block_no_cleanup [of D W k kc format backingPath target] by (metis prod.collapse)
  have "try_finally (try_block D W k kc format backingPath target) (finally_block W backingPath)
          = (fst (fst (try_block D W k kc format backingPath target)) @ [ContentsDelete tempTarget], Inl e)"
    using tb finally_block_temp_rejected [OF assms(4,5)] by (simp add: try_finally_def)
  then show ?thesis
    using executeCommand_reaches_try [OF assms(1), of target format] nc prologue_no_cleanup
    by simp
qed

text \<open>
  The same on the example: a server that answers the deletion of \<open>untitled.html\<close> with an
  error.
\<close>

theorem temp_delete_rejection_surfaces_witness:
  "snd (executeCommand example_deps failing_delete_world 0 (js ''out.html'') html)
      = Inl (Rejected (js ''404''))
   \<and> filter is_cleanup (fst (executeCommand example_deps failing_delete_world 0 (js ''out.html'') html))
      = [ContentsDelete (js ''untitled.html'')]"
  by (rule temp_delete_rejection_surfaces [where k = started_kernel and kc = 1
        and content = "Json (js ''{}'')" and backingPath = "js ''nb.ipynb''" and outputs = "[]"])
     (simp_all add: reaches_try_def started_def failing_delete_world_def example_defs js_def)

text \<open>
  C2. \<open>invokeWithFileSynced\<close> has no \<open>finally\<close>. With a resource and a backing file that
  was created, a handler whose promise rejects ends the call: the rejection is what the
  caller receives, and after the handler no call is made, so the only cleanup calls are
  those the handler made itself. The backing file is neither disposed nor deleted.
\<close>

theorem handler_rejection_skips_cleanup:
  assumes "createBackingFile W = Inr (Some backingPath)"
    and "JSON_parse D contents = Inr content"
    and "handler backingPath = (t, Inl e)"
  shows "invokeWithFileSynced D W (Some uri) contents handler =
           ([CreateBackingFile, ContentsSave backingPath content, Handler backingPath] @ t, Inl e)
       \<and> filter is_cleanup (fst (invokeWithFileSynced D W (Some uri) contents handler))
           = filter is_cleanup t"
  using assms by (simp add: invokeWithFileSynced_def await_def await_catch_noop_def)

theorem handler_rejection_skips_cleanup_witness:
  "invokeWithFileSynced example_deps example_world (Some (js ''file:///nb.ipynb'')) (js ''{}'')
      (\<lambda>p. ([], Inl (Rejected (js ''handler failed'')))) =
     ([CreateBackingFile, ContentsSave (js ''nb.ipynb'') (Json (js ''{}'')), Handler (js ''nb.ipynb'')],
      Inl (Rejected (js ''handler failed'')))
   \<and> filter is_cleanup
        (fst (invokeWithFileSynced example_deps example_world (Some (js ''file:///nb.ipynb'')) (js ''{}'')
                (\<lambda>p. ([], Inl (Rejected (js ''handler failed'')))))) = []"
proof -
  have "invokeWithFileSynced example_deps example_world (Some (js ''file:///nb.ipynb'')) (js ''{}'')
      (\<lambda>p. ([], Inl (Rejected (js ''handler failed'')))) =
     ([CreateBackingFile, ContentsSave (js ''nb.ipynb'') (Json (js ''{}'')), Handler (js ''nb.ipynb'')] @ [],
      Inl (Rejected (js ''handler failed'')))
   \<and> filter is_cleanup
        (fst (invokeWithFileSynced example_deps example_world (Some (js ''file:///nb.ipynb'')) (js ''{}'')
                (\<lambda>p. ([], Inl (Rejected (js ''handler failed'')))))) = filter is_cleanup []"
    by (rule handler_rejection_skips_cleanup) (simp_all add: example_defs)
  then show ?thesis by simp
qed

text \<open>When the handler resolves, the backing file is disposed and deleted after it.\<close>

lemma invokeWithFileSynced_resolved:
  assumes "createBackingFile W = Inr (Some backingPath)"
    and "JSON_parse D contents = Inr content"
    and "handler backingPath = (t, Inr u)"
    and "backingFile_dispose W = Inr u4"
  shows "invokeWithFileSynced D W (Some uri) contents handler =
           ([CreateBackingFile, ContentsSave backingPath content, Handler backingPath] @ t
              @ [BackingFileDispose, ContentsDelete backingPath], Inr ())"
  using assms by (simp add: invokeWithFileSynced_def await_def await_catch_noop_def)

subsection \<open>The entry points\<close>

text \<open>
  C10. \<open>export\<close> resolves to \<open>undefined\<close> for every input and makes no call at all: no
  kernel lookup, no remote or local file I/O. The export itself is \<open>executeCommand\<close>, which
  on the example environment does make calls.
\<close>

theorem export_is_a_noop:
  "export D W sourceDocument target interp token = ([], Inr ())
   \<and> filter is_io (fst (executeCommand example_deps example_world 0 (js ''out.html'') html)) \<noteq> []"
  by (simp add: export_def export_defs example_defs js_def trim_def isWhiteSpace_def)

theorem export_is_a_noop_witness:
  "export example_deps example_world 0 (js ''out.html'')
      \<lparr>env_id = js ''env'', isCondaEnvWithoutPython = False\<rparr> True = ([], Inr ())"
  using export_is_a_noop [of example_deps example_world 0 "js ''out.html''"
      "\<lparr>env_id = js ''env'', isCondaEnvWithoutPython = False\<rparr>" True]
  by simp

text \<open>
  C3. \<open>executeCommand\<close> on a document that has no kernel resolves and makes no call. On a
  kernel that has no session it first starts the kernel. When \<open>start\<close> resolves and the
  kernel still has no session, or a session without a kernel handle, the call resolves
  and has made no other call: no remote file is created, no code runs in the kernel,
  nothing is written. When \<open>start\<close> rejects, the call rejects with that error and has made
  no other call.
\<close>

theorem executeCommand_without_session:
  "(kernelProvider_get W doc = None \<longrightarrow> executeCommand D W doc target format = ([], Inr ()))
   \<and> (kernelProvider_get W doc = Some k \<and> kernel_session k = None \<and> kernel_start W = Inr None
        \<longrightarrow> executeCommand D W doc target format = ([KernelStart], Inr ()))
   \<and> (kernelProvider_get W doc = Some k \<and> kernel_session k = None
        \<and> kernel_start W = Inr (Some s) \<and> session_kernel s = None
        \<longrightarrow> executeCommand D W doc target format = ([KernelStart], Inr ()))
   \<and> (kernelProvider_get W doc = Some k \<and> kernel_session k = None \<and> kernel_start W = Inl e
        \<longrightarrow> executeCommand D W doc target format = ([KernelStart], Inl e))"
  by (simp add: executeCommand_def export_with_kernel_def await_def)

theorem executeCommand_without_session_witness:
  "executeCommand example_deps (example_world\<lparr>kernel_start := Inr None\<rparr>) 0 (js ''out.html'') html
      = ([KernelStart], Inr ())
   \<and> executeCommand example_deps (example_world\<lparr>kernel_start := Inr (Some \<lparr>session_kernel = None\<rparr>)\<rparr>)
        0 (js ''out.html'') html
      = ([KernelStart], Inr ())
   \<and> executeCommand example_deps (example_world\<lparr>kernel_start := Inl (Rejected (js ''dead''))\<rparr>)
        0 (js ''out.html'') html
      = ([KernelStart], Inl (Rejected (js ''dead'')))
   \<and> executeCommand example_deps (example_world\<lparr>kernelProvider_get := (\<lambda>d. None)\<rparr>) 0 (js ''out.html'') html
      = ([], Inr ())"
  using executeCommand_without_session [of "example_world\<lparr>kernel_start := Inr None\<rparr>" 0
      example_deps "js ''out.html''" html example_kernel]
    executeCommand_without_session [of
      "example_world\<lparr>kernel_start := Inr (Some \<lparr>session_kernel = None\<rparr>)\<rparr>" 0
      example_deps "js ''out.html''" html example_kernel "\<lparr>session_kernel = None\<rparr>"]
    executeCommand_without_session [of
      "example_world\<lparr>kernel_start := Inl (Rejected (js ''dead''))\<rparr>" 0
      example_deps "js ''out.html''" html example_kernel _ "Rejected (js ''dead'')"]
    executeCommand_without_session [of "example_world\<lparr>kernelProvider_get := (\<lambda>d. None)\<rparr>" 0
      example_deps "js ''out.html''" html]
  by (simp add: example_world_def example_kernel_def)

text \<open>
  A kernel without a session does not end the export: on the example, \<open>start\<close> gives the
  kernel a session, and the call goes on to create, read and delete remote files, to run
  code in the kernel and to write the target.
\<close>

theorem executeCommand_without_session_counterexample:
  "kernelProvider_get example_world 0 = Some example_kernel
   \<and> kernel_session example_kernel = None
   \<and> snd (executeCommand example_deps example_world 0 (js ''out.html'') html) = Inr ()
   \<and> filter is_io (fst (executeCommand example_deps example_world 0 (js ''out.html'') html)) =
       [CreateBackingFile,
        ContentsSave (js ''nb.ipynb'') (Json (js ''{}'')),
        ExecuteSilently 1 (js ''import os;os.getcwd();''),
        ContentsNewUntitled (js ''.html''),
        ExecuteSilently 1 (js ''!jupyter nbconvert undefined/nb.ipynb --to html --output untitled.html''),
        ContentsGet (js ''untitled.html'') (js ''text''),
        FsWriteFile (js ''out.html'') (Text (js ''<html/>'')),
        ContentsDelete (js ''untitled.html''),
        ContentsDelete (js ''nb.ipynb'')]"
  by (simp add: export_defs example_defs js_def trim_def isWhiteSpace_def)

subsection \<open>The outputs of the conversion command\<close>

lemma no_traceback_in_empty: "\<not> includes_str [] (js ''Traceback (most recent call last)'')"
  by (simp add: js_def)

text \<open>What the check of lines 137 to 143 yields, by the first output.\<close>

lemma check_output_cases:
  "(outputs = [] \<longrightarrow>
      check_output D format outputs =
        ([], Inl (Error (js ''Failed to export to '' @ formatName D format))))
   \<and> (\<forall>out rest. outputs = out # rest \<and> stream_name out \<noteq> Some (js ''stdout'')
           \<and> output_type out \<noteq> js ''stream'' \<longrightarrow>
         check_output D format outputs =
           ([], Inl (Error (js ''Failed to export to '' @ formatName D format))))
   \<and> (\<forall>out rest text. outputs = out # rest
           \<and> (stream_name out = Some (js ''stdout'') \<or> output_type out = js ''stream'')
           \<and> text = trim (concatMultilineString D (stream_text out)) \<longrightarrow>
         (includes_str text (js ''Traceback (most recent call last)'') \<longrightarrow>
            check_output D format outputs = ([], Inl (Error text)))
         \<and> (text = [] \<longrightarrow>
              check_output D format outputs =
                ([], Inl (Error (js ''Failed to export to '' @ formatName D format))))
         \<and> (text \<noteq> [] \<and> \<not> includes_str text (js ''Traceback (most recent call last)'') \<longrightarrow>
              check_output D format outputs = ([TraceLog text], Inr ())))"
  using no_traceback_in_empty
  by (auto simp: check_output_def parseStreamOutput_def isExportFailed_def Let_def)

lemma convert_thrown:
  assumes "execute_nbconvert W = Inr outputs" and "check_output D format outputs = (t, Inl e)"
  shows "snd (convert D W kc format pwd backingPath tempTarget target) = Inl e"
  using assms by (simp add: convert_def await_def)

lemma convert_logged:
  assumes "execute_nbconvert W = Inr outputs" and "check_output D format outputs = (t, Inr u)"
  shows "convert D W kc format pwd backingPath tempTarget target =
     (ExecuteSilently kc (nbconvert_command D (source_path pwd backingPath) format tempTarget)
        # t @ fst (fetch_and_write D W format tempTarget target),
      snd (fetch_and_write D W format tempTarget target))"
  using assms by (simp add: convert_def await_def case_prod_beta)

lemma executeCommand_events:
  assumes "reaches_try D W doc k kc content backingPath"
  shows "set (fst (fst (try_block D W k kc format backingPath target)))
           \<subseteq> set (fst (executeCommand D W doc target format))"
  using executeCommand_reaches_try [OF assms, of target format]
  by (auto simp: try_finally_def case_prod_beta split: sum.splits)

text \<open>
  C4. What \<open>executeCommand\<close> does with the outputs of the conversion command. With no
  output, with a first output that is neither named \<open>stdout\<close> nor of type \<open>stream\<close>, or with
  a first output whose concatenated and trimmed text is empty, the \<open>try\<close> block throws an
  error with the message \<open>Failed to export to <format>\<close>. When that text contains
  \<open>Traceback (most recent call last)\<close>, the \<open>try\<close> block throws an error whose message is
  the text. The error thrown is what the caller receives when the cleanup that follows
  does not itself fail. Any other text is logged and no error is thrown for it: the
  \<open>try\<close> block goes on to fetch the converted file and to write the target, and ends as
  these end.
\<close>

theorem export_failure_detection:
  assumes "reaches_try D W doc k kc content backingPath"
    and "execute_getcwd W = Inr cwd_outputs"
    and "contents_newUntitled W = Inr tempTarget"
    and "execute_nbconvert W = Inr outputs"
  shows
   "(outputs = [] \<longrightarrow>
       call_throws D W doc k kc format backingPath target
         (Error (js ''Failed to export to '' @ formatName D format)))
    \<and> (\<forall>out rest. outputs = out # rest \<and> stream_name out \<noteq> Some (js ''stdout'')
            \<and> output_type out \<noteq> js ''stream'' \<longrightarrow>
          call_throws D W doc k kc format backingPath target
            (Error (js ''Failed to export to '' @ formatName D format)))
    \<and> (\<forall>out rest text. outputs = out # rest
            \<and> (stream_name out = Some (js ''stdout'') \<or> output_type out = js ''stream'')
            \<and> text = trim (concatMultilineString D (stream_text out)) \<longrightarrow>
          (includes_str text (js ''Traceback (most recent call last)'') \<longrightarrow>
             call_throws D W doc k kc format backingPath target (Error text))
          \<and> (text = [] \<longrightarrow>
               call_throws D W doc k kc format backingPath target
                 (Error (js ''Failed to export to '' @ formatName D format)))
          \<and> (text \<noteq> [] \<and> \<not> includes_str text (js ''Traceback (most recent call last)'') \<longrightarrow>
               TraceLog text \<in> set (fst (executeCommand D W doc target format))
               \<and> snd (fst (try_block D W k kc format backingPath target)) =
                   snd (fetch_and_write D W format tempTarget target)))"
proof -
  obtain s where s: "kernel_session k = Some s" "session_kernel s = Some kc"
    using reaches_try_session [OF assms(1)] by blast
  obtain pwd where cwd: "getCWD W k = ([ExecuteSilently kc (js ''import os;os.getcwd();'')], Inr pwd)"
    using getCWD_resolves [OF s assms(2)] by blast
  note tb = try_block_converts [OF cwd assms(3), of D kc format backingPath target]
  have res: "snd (fst (try_block D W k kc format backingPath target))
               = snd (convert D W kc format pwd backingPath tempTarget target)"
    using tb by simp
  have evs: "set (fst (convert D W kc format pwd backingPath tempTarget target))
               \<subseteq> set (fst (executeCommand D W doc target format))"
    using executeCommand_events [OF assms(1), of format target] tb by auto
  have caller: "snd (executeCommand D W doc target format)
                  = snd (fst (try_block D W k kc format backingPath target))"
    if "contents_delete_temp W = Inr ()" "backingFile_dispose W = Inr ()"
    using cleanup_after_try_block [OF assms(1) that, of target format] by simp
  have thrown: "call_throws D W doc k kc format backingPath target e"
    if "check_output D format outputs = ([], Inl e)" for e
    using convert_thrown [OF assms(4) that] res caller by (simp add: call_throws_def)
  have logged: "TraceLog m \<in> set (fst (executeCommand D W doc target format))
      \<and> snd (fst (try_block D W k kc format backingPath target))
          = snd (fetch_and_write D W format tempTarget target)"
    if "check_output D format outputs = ([TraceLog m], Inr ())" for m
    using convert_logged [OF assms(4) that, of kc pwd backingPath tempTarget target] res evs by auto
  show ?thesis
    using check_output_cases [of outputs D format] thrown logged
    by (intro conjI allI impI) blast+
qed

theorem export_failure_detection_witness:
  "snd (executeCommand example_deps traceback_world 0 (js ''out.html'') html)
     = Inl (Error (js ''Traceback (most recent call last): ValueError''))
   \<and> snd (executeCommand example_deps silent_world 0 (js ''out.html'') html)
     = Inl (Error (js ''Failed to export to html''))
   \<and> TraceLog (js ''converting'')
       \<in> set (fst (executeCommand example_deps example_world 0 (js ''out.html'') html))
   \<and> snd (fst (try_block example_deps example_world started_kernel 1 html (js ''nb.ipynb'')
                  (js ''out.html''))) = Inr ()"
proof -
  have reach: "reaches_try example_deps traceback_world 0 started_kernel 1 (Json (js ''{}''))
      (js ''nb.ipynb'')"
    "reaches_try example_deps silent_world 0 started_kernel 1 (Json (js ''{}'')) (js ''nb.ipynb'')"
    "reaches_try example_deps example_world 0 started_kernel 1 (Json (js ''{}'')) (js ''nb.ipynb'')"
    by (simp_all add: reaches_try_def started_def traceback_world_def silent_world_def example_defs)
  have cwd: "execute_getcwd traceback_world = Inr []" "execute_getcwd silent_world = Inr []"
      "execute_getcwd example_world = Inr []"
    and tmp: "contents_newUntitled traceback_world = Inr (js ''untitled.html'')"
      "contents_newUntitled silent_world = Inr (js ''untitled.html'')"
      "contents_newUntitled example_world = Inr (js ''untitled.html'')"
    and outs: "execute_nbconvert traceback_world = Inr [traceback_stream]"
      "execute_nbconvert silent_world = Inr []"
      "execute_nbconvert example_world = Inr [example_stream]"
    and cleanup: "contents_delete_temp traceback_world = Inr () \<and> backingFile_dispose traceback_world = Inr ()"
      "contents_delete_temp silent_world = Inr () \<and> backingFile_dispose silent_world = Inr ()"
    by (simp_all add: traceback_world_def silent_world_def example_world_def)

  have tb: "trim (concatMultilineString example_deps (stream_text traceback_stream))
              = js ''Traceback (most recent call last): ValueError''"
    by (simp add: example_defs traceback_stream_def trim_def isWhiteSpace_def js_def)
  have inc: "includes_str (js ''Traceback (most recent call last): ValueError'')
               (js ''Traceback (most recent call last)'')"
    by (simp add: js_def)
  have stream: "stream_name traceback_stream = Some (js ''stdout'')"
    by (simp add: traceback_stream_def)
  note traced = export_failure_detection [OF reach(1) cwd(1) tmp(1) outs(1),
      of html "js ''out.html''", THEN conjunct2, THEN conjunct2, rule_format,
      of traceback_stream "[]" "js ''Traceback (most recent call last): ValueError''", THEN conjunct1]
  have "includes_str (js ''Traceback (most recent call last): ValueError'')
          (js ''Traceback (most recent call last)'') \<longrightarrow>
        call_throws example_deps traceback_world 0 started_kernel 1 html (js ''nb.ipynb'')
          (js ''out.html'') (Error (js ''Traceback (most recent call last): ValueError''))"
    by (rule traced) (simp add: stream tb)
  then have "call_throws example_deps traceback_world 0 started_kernel 1 html (js ''nb.ipynb'')
          (js ''out.html'') (Error (js ''Traceback (most recent call last): ValueError''))"
    using inc by (rule mp)
  then have first: "snd (executeCommand example_deps traceback_world 0 (js ''out.html'') html)
          = Inl (Error (js ''Traceback (most recent call last): ValueError''))"
    using cleanup(1) by (simp add: call_throws_def)

  note silent = export_failure_detection [OF reach(2) cwd(2) tmp(2) outs(2),
      of html "js ''out.html''", THEN conjunct1]
  have generic: "js ''Failed to export to '' @ formatName example_deps html = js ''Failed to export to html''"
    by (simp add: example_deps_def js_def)
  have second: "snd (executeCommand example_deps silent_world 0 (js ''out.html'') html)
          = Inl (Error (js ''Failed to export to html''))"
    using silent generic cleanup(2) by (simp add: call_throws_def)

  have conv: "trim (concatMultilineString example_deps (stream_text example_stream)) = js ''converting''"
    by (simp add: example_defs trim_def isWhiteSpace_def js_def)
  have plain: "js ''converting'' \<noteq> []
      \<and> \<not> includes_str (js ''converting'') (js ''Traceback (most recent call last)'')"
    by (simp add: js_def)
  have stream2: "output_type example_stream = js ''stream''"
    by (simp add: example_stream_def)
  note logged = export_failure_detection [OF reach(3) cwd(3) tmp(3) outs(3),
      of html "js ''out.html''", THEN conjunct2, THEN conjunct2, rule_format,
      of example_stream "[]" "js ''converting''", THEN conjunct2, THEN conjunct2]
  have "js ''converting'' \<noteq> []
      \<and> \<not> includes_str (js ''converting'') (js ''Traceback (most recent call last)'') \<longrightarrow>
        TraceLog (js ''converting'')
          \<in> set (fst (executeCommand example_deps example_world 0 (js ''out.html'') html))
        \<and> snd (fst (try_block example_deps example_world started_kernel 1 html (js ''nb.ipynb'')
                       (js ''out.html'')))
            = snd (fetch_and_write example_deps example_world html (js ''untitled.html'') (js ''out.html''))"
    by (rule logged) (simp add: stream2 conv)
  then have third: "TraceLog (js ''converting'')
          \<in> set (fst (executeCommand example_deps example_world 0 (js ''out.html'') html))
        \<and> snd (fst (try_block example_deps example_world started_kernel 1 html (js ''nb.ipynb'')
                       (js ''out.html'')))
            = snd (fetch_and_write example_deps example_world html (js ''untitled.html'') (js ''out.html''))"
    using plain by (rule mp)
  have written: "snd (fetch_and_write example_deps example_world html (js ''untitled.html'') (js ''out.html''))
      = Inr ()"
    by (simp add: fetch_and_write_def await_def example_world_def)
  show ?thesis
    using first second third written by simp
qed

subsection \<open>The working directory\<close>

text \<open>
  C5. When the working-directory probe yields no output, or a first output whose type is
  not \<open>execute_result\<close>, \<open>getCWD\<close> returns \<open>undefined\<close>. The template literal renders it as
  the text \<open>undefined\<close>, so the source path handed to the conversion command is
  \<open>undefined/\<close> followed by the path of the backing file.
\<close>

theorem getCWD_undefined_source_path:
  assumes "reaches_try D W doc k kc content backingPath"
    and "execute_getcwd W = Inr outputs"
    and "case outputs of [] \<Rightarrow> True | out # rest \<Rightarrow> output_type out \<noteq> js ''execute_result''"
    and "contents_newUntitled W = Inr tempTarget"
  shows "getCWD W k = ([ExecuteSilently kc (js ''import os;os.getcwd();'')], Inr None)
    \<and> source_path None backingPath = js ''undefined/'' @ backingPath
    \<and> ExecuteSilently kc
         (js ''!jupyter nbconvert undefined/'' @ backingPath @ js '' --to '' @ formatName D format
            @ js '' --output '' @ basename D tempTarget)
       \<in> set (fst (executeCommand D W doc target format))"
proof -
  obtain s where s: "kernel_session k = Some s" "session_kernel s = Some kc"
    using reaches_try_session [OF assms(1)] by blast
  have cwd: "getCWD W k = ([ExecuteSilently kc (js ''import os;os.getcwd();'')], Inr None)"
    using s assms(2,3) by (auto simp: getCWD_def await_def split: list.splits)
  have path: "source_path None backingPath = js ''undefined/'' @ backingPath"
    by (simp add: source_path_def template_def js_def)
  note tb = try_block_converts [OF cwd assms(4), of D kc format backingPath target]
  have cmd: "nbconvert_command D (source_path None backingPath) format tempTarget =
      js ''!jupyter nbconvert undefined/'' @ backingPath @ js '' --to '' @ formatName D format
        @ js '' --output '' @ basename D tempTarget"
    by (simp add: nbconvert_command_def path js_def)
  have "ExecuteSilently kc (nbconvert_command D (source_path None backingPath) format tempTarget)
      \<in> set (fst (convert D W kc format None backingPath tempTarget target))"
    by (simp add: convert_def await_def case_prod_beta split: sum.splits)
  then have "ExecuteSilently kc (nbconvert_command D (source_path None backingPath) format tempTarget)
      \<in> set (fst (executeCommand D W doc target format))"
    using executeCommand_reaches_try [OF assms(1), of target format] tb
    by (simp add: try_finally_def case_prod_beta split: sum.splits)
  then show ?thesis
    using cwd path cmd by simp
qed

theorem getCWD_undefined_source_path_witness:
  "getCWD example_world started_kernel = ([ExecuteSilently 1 (js ''import os;os.getcwd();'')], Inr None)
   \<and> source_path None (js ''nb.ipynb'') = js ''undefined/nb.ipynb''
   \<and> ExecuteSilently 1 (js ''!jupyter nbconvert undefined/nb.ipynb --to html --output untitled.html'')
       \<in> set (fst (executeCommand example_deps example_world 0 (js ''out.html'') html))"
proof -
  have "getCWD example_world started_kernel = ([ExecuteSilently 1 (js ''import os;os.getcwd();'')], Inr None)
    \<and> source_path None (js ''nb.ipynb'') = js ''undefined/'' @ js ''nb.ipynb''
    \<and> ExecuteSilently 1
         (js ''!jupyter nbconvert undefined/'' @ js ''nb.ipynb'' @ js '' --to '' @ formatName example_deps html
            @ js '' --output '' @ basename example_deps (js ''untitled.html''))
       \<in> set (fst (executeCommand example_deps example_world 0 (js ''out.html'') html))"
    by (rule getCWD_undefined_source_path [where content = "Json (js ''{}'')" and outputs = "[]"])
       (simp_all add: reaches_try_def started_def example_defs js_def)
  moreover have "js ''!jupyter nbconvert undefined/'' @ js ''nb.ipynb'' @ js '' --to '' @ formatName example_deps html
                 @ js '' --output '' @ basename example_deps (js ''untitled.html'')
      = js ''!jupyter nbconvert undefined/nb.ipynb --to html --output untitled.html''"
    by (simp add: example_defs js_def)
  moreover have "js ''undefined/'' @ js ''nb.ipynb'' = js ''undefined/nb.ipynb''"
    by (simp add: js_def)
  ultimately show ?thesis by simp
qed

text \<open>
  The path is not \<open>/\<close> followed by the path of the backing file: on the example the command
  that runs names \<open>undefined/nb.ipynb\<close>, and no command names \<open>/nb.ipynb\<close>.
\<close>

theorem getCWD_undefined_source_path_counterexample:
  "execute_getcwd example_world = Inr []
   \<and> snd (getCWD example_world started_kernel) = Inr None
   \<and> source_path None (js ''nb.ipynb'') \<noteq> js ''/'' @ js ''nb.ipynb''
   \<and> ExecuteSilently 1 (js ''!jupyter nbconvert undefined/nb.ipynb --to html --output untitled.html'')
        \<in> set (fst (executeCommand example_deps example_world 0 (js ''out.html'') html))
   \<and> ExecuteSilently 1 (js ''!jupyter nbconvert /nb.ipynb --to html --output untitled.html'')
        \<notin> set (fst (executeCommand example_deps example_world 0 (js ''out.html'') html))"
  by (simp add: export_defs example_defs js_def trim_def isWhiteSpace_def)

section \<open>Properties of the display data provider\<close>

lemma update_object_details [simp]: "details (update_object d f st) = details st"
  by (simp add: update_object_def)

lemma update_object_length [simp]: "length (objects (update_object d f st)) = length (objects st)"
  by (simp add: update_object_def)

lemma update_object_cdd_id:
  assumes "\<And>obj. cdd_id (f obj) = cdd_id obj"
  shows "map cdd_id (objects (update_object d f st)) = map cdd_id (objects st)"
  using assms by (simp add: update_object_def map_update list_update_same_conv)

lemma updateInterpreterInfo_details:
  "updateInterpreterInfo D envs e l st = (c', st') \<Longrightarrow> details st' = details st"
  by (auto simp: updateInterpreterInfo_def Let_def split: prod.splits option.splits if_splits)

lemma updateInterpreterInfo_ids:
  "updateInterpreterInfo D envs e l st = (c', st') \<Longrightarrow>
     map cdd_id (objects st') = map cdd_id (objects st)"
  by (auto simp: updateInterpreterInfo_def Let_def triggerChange_def
      split: prod.splits option.splits if_splits intro!: update_object_cdd_id)

lemma run_listeners_details:
  "run_listeners D envs e ls st = (ls', st') \<Longrightarrow> details st' = details st"
  by (induction ls arbitrary: st ls' st')
     (auto split: prod.splits dest: updateInterpreterInfo_details)

lemma run_listeners_ids:
  "run_listeners D envs e ls st = (ls', st') \<Longrightarrow>
     map cdd_id (objects st') = map cdd_id (objects st)"
  by (induction ls arbitrary: st ls' st')
     (auto split: prod.splits dest: updateInterpreterInfo_ids)

lemma interpreter_changed_details [simp]:
  "details (interpreter_changed D envs e st) = details st"
  by (auto simp: interpreter_changed_def split: option.splits prod.splits dest: run_listeners_details)

lemma interpreter_changed_ids [simp]:
  "map cdd_id (objects (interpreter_changed D envs e st)) = map cdd_id (objects st)"
  by (auto simp: interpreter_changed_def split: option.splits prod.splits dest: run_listeners_ids)

lemma serverDisplayName_resolved_ids [simp]:
  "map cdd_id (objects (serverDisplayName_resolved d n st)) = map cdd_id (objects st)"
  unfolding serverDisplayName_resolved_def
  by (rule update_object_cdd_id) (simp add: triggerChange_def)

lemma category_resolved_ids [simp]:
  "map cdd_id (objects (category_resolved d n st)) = map cdd_id (objects st)"
  unfolding category_resolved_def
  by (rule update_object_cdd_id) (simp add: triggerChange_def)

lemma serverDisplayName_resolved_details [simp]:
  "details (serverDisplayName_resolved d n st) = details st"
  by (simp add: serverDisplayName_resolved_def)

lemma category_resolved_details [simp]:
  "details (category_resolved d n st) = details st"
  by (simp add: category_resolved_def)

lemma getDisplayData_returns_stored:
  "details (snd (getDisplayData D c st)) (conn_id c) = Some (fst (getDisplayData D c st))"
  by (simp add: getDisplayData_def refresh_and_return_def create_details_def Let_def
      split: option.splits)

lemma getDisplayData_hit:
  "details st (conn_id c) = Some d \<Longrightarrow> fst (getDisplayData D c st) = d"
  by (simp add: getDisplayData_def refresh_and_return_def Let_def)

lemma getDisplayData_keeps:
  "details st k = Some d \<Longrightarrow> details (snd (getDisplayData D c st)) k = Some d"
  by (auto simp: getDisplayData_def refresh_and_return_def create_details_def Let_def
      split: option.splits)

lemma step_keeps: "details st k = Some d \<Longrightarrow> details (step D a st) k = Some d"
  by (cases a) (simp_all add: getDisplayData_keeps)

lemma run_keeps: "details st k = Some d \<Longrightarrow> details (run D acts st) k = Some d"
  by (induction acts arbitrary: st) (simp_all add: step_keeps)

lemma getDisplayData_fst:
  "fst (getDisplayData D c st) =
     (case details st (conn_id c) of None \<Rightarrow> length (objects st) | Some d \<Rightarrow> d)"
  by (simp add: getDisplayData_def refresh_and_return_def create_details_def Let_def
      split: option.splits)

lemma getDisplayData_details:
  "details (snd (getDisplayData D c st)) = (details st)(conn_id c \<mapsto> fst (getDisplayData D c st))"
  by (simp add: getDisplayData_def refresh_and_return_def create_details_def Let_def
      split: option.splits)

lemma getDisplayData_ids:
  "map cdd_id (objects (snd (getDisplayData D c st))) =
     (case details st (conn_id c) of
        None \<Rightarrow> map cdd_id (objects st) @ [conn_id c]
      | Some d \<Rightarrow> map cdd_id (objects st))"
  by (simp add: getDisplayData_def refresh_and_return_def create_details_def Let_def
      split: option.splits)

lemma agree_hit: "agree m ids \<Longrightarrow> m k = Some d \<Longrightarrow> agree (m(k \<mapsto> d)) ids"
  by (simp add: fun_upd_idem)

lemma agree_miss:
  assumes "agree m ids" and "m k = None"
  shows "agree (m(k \<mapsto> length ids)) (ids @ [k])"
proof -
  have fresh: "ids ! d \<noteq> k" if "d < length ids" for d
    using assms that unfolding agree_def by (metis option.distinct(1))
  have old: "d < length ids \<and> ids ! d = k2" if "m k2 = Some d" for k2 d
    using assms(1) that unfolding agree_def by blast
  have entry: "m (ids ! d) = Some d" if "d < length ids" for d
    using assms(1) that unfolding agree_def by blast
  show ?thesis
    unfolding agree_def
  proof (intro conjI allI impI)
    fix k2 d assume "(m(k \<mapsto> length ids)) k2 = Some d"
    then show "d < length (ids @ [k])"
      using old by (auto split: if_splits simp: less_Suc_eq)
  next
    fix k2 d assume "(m(k \<mapsto> length ids)) k2 = Some d"
    then show "(ids @ [k]) ! d = k2"
      using old by (auto split: if_splits simp: nth_append)
  next
    fix d assume "d < length (ids @ [k])"
    then show "(m(k \<mapsto> length ids)) ((ids @ [k]) ! d) = Some d"
      using entry fresh by (auto simp: nth_append less_Suc_eq)
  qed
qed

lemma getDisplayData_consistent:
  assumes "consistent st"
  shows "consistent (snd (getDisplayData D c st))"
proof (cases "details st (conn_id c)")
  case None
  then show ?thesis
    using agree_miss [OF assms [unfolded consistent_def] None]
    by (simp add: consistent_def getDisplayData_details getDisplayData_ids getDisplayData_fst)
next
  case (Some d)
  then show ?thesis
    using agree_hit [OF assms [unfolded consistent_def] Some]
    by (simp add: consistent_def getDisplayData_details getDisplayData_ids getDisplayData_fst)
qed

lemma step_consistent: "consistent st \<Longrightarrow> consistent (step D a st)"
proof (cases a)
  case (GetDisplayData c)
  assume "consistent st"
  then show ?thesis using GetDisplayData by (simp add: getDisplayData_consistent)
next
  case (ServerDisplayNameResolved d n)
  assume "consistent st"
  then show ?thesis using ServerDisplayNameResolved
    by (simp add: consistent_def)
next
  case (CategoryResolved d n)
  assume "consistent st"
  then show ?thesis using CategoryResolved
    by (simp add: consistent_def)
next
  case RefreshRejected
  assume "consistent st"
  then show ?thesis using RefreshRejected by simp
next
  case (InterpreterChanged envs e)
  assume "consistent st"
  then show ?thesis using InterpreterChanged by (simp add: consistent_def)
qed

lemma run_consistent: "consistent st \<Longrightarrow> consistent (run D acts st)"
  by (induction acts arbitrary: st) (simp_all add: step_consistent)

lemma consistent_initial: "consistent initial_state"
  by (simp add: consistent_def agree_def initial_state_def)

lemma consistent_distinct:
  assumes "consistent st"
  shows "distinct (map cdd_id (objects st))"
proof -
  have "i = j" if "i < length (map cdd_id (objects st))" "j < length (map cdd_id (objects st))"
    "map cdd_id (objects st) ! i = map cdd_id (objects st) ! j" for i j
    using assms that unfolding consistent_def agree_def by (metis option.inject)
  then show ?thesis
    unfolding distinct_conv_nth by blast
qed

text \<open>
  C6. Two calls of \<open>getDisplayData\<close> with the same connection id return the same entry
  object, whatever the provider did in between. An entry of the map is never removed nor
  replaced by another object, by \<open>getDisplayData\<close> or by anything else the provider does.
  From the start of the process on, the map and the objects agree, and no two objects
  were built for the same connection id.
\<close>

theorem getDisplayData_identity_stable:
  "(conn_id c' = conn_id c \<longrightarrow>
      fst (getDisplayData D c' (run D acts (snd (getDisplayData D c st)))) = fst (getDisplayData D c st))
   \<and> (details st k = Some d \<longrightarrow> details (snd (getDisplayData D c st)) k = Some d)
   \<and> (details st k = Some d \<longrightarrow> details (run D acts st) k = Some d)
   \<and> consistent (run D acts initial_state)
   \<and> distinct (map cdd_id (objects (run D acts initial_state)))"
proof -
  have "fst (getDisplayData D c' (run D acts (snd (getDisplayData D c st)))) = fst (getDisplayData D c st)"
    if "conn_id c' = conn_id c"
    using run_keeps [OF getDisplayData_returns_stored, of D acts D c st] that
    by (simp add: getDisplayData_hit)
  moreover have "consistent (run D acts initial_state)"
    by (rule run_consistent [OF consistent_initial])
  ultimately show ?thesis
    by (simp add: getDisplayData_keeps run_keeps consistent_distinct)
qed

theorem getDisplayData_identity_stable_witness:
  "fst (getDisplayData example_display_deps remote_connection initial_state) = 0
   \<and> fst (getDisplayData example_display_deps remote_connection
          (run example_display_deps example_actions
             (snd (getDisplayData example_display_deps remote_connection initial_state)))) = 0
   \<and> details (run example_display_deps example_actions
               (snd (getDisplayData example_display_deps remote_connection initial_state)))
        (js ''k1'') = Some 0
   \<and> details (snd (getDisplayData example_display_deps conda_connection
                    (snd (getDisplayData example_display_deps remote_connection initial_state))))
        (js ''k1'') = Some 0
   \<and> distinct (map cdd_id (objects (run example_display_deps example_actions initial_state)))"
proof -
  let ?st1 = "snd (getDisplayData example_display_deps remote_connection initial_state)"
  have first: "fst (getDisplayData example_display_deps remote_connection initial_state) = 0"
    by (simp add: getDisplayData_def create_details_def refresh_and_return_def Let_def
        example_display_deps_def remote_connection_def initial_state_def)
  have stored: "details ?st1 (js ''k1'') = Some 0"
    by (simp add: getDisplayData_def create_details_def refresh_and_return_def Let_def
        example_display_deps_def remote_connection_def initial_state_def)
  note thm1 = getDisplayData_identity_stable [of remote_connection remote_connection
      example_display_deps example_actions initial_state]
  note thm2 = getDisplayData_identity_stable [of remote_connection conda_connection
      example_display_deps example_actions ?st1 "js ''k1''" 0]
  have "fst (getDisplayData example_display_deps remote_connection
          (run example_display_deps example_actions ?st1)) = 0"
    using thm1 first by simp
  moreover have "details (run example_display_deps example_actions ?st1) (js ''k1'') = Some 0"
    using thm2 stored by blast
  moreover have "details (snd (getDisplayData example_display_deps conda_connection ?st1)) (js ''k1'') = Some 0"
    using thm2 stored by blast
  moreover have "distinct (map cdd_id (objects (run example_display_deps example_actions initial_state)))"
    using thm1 by blast
  ultimately show ?thesis
    using first by simp
qed

section \<open>Properties of the server selector\<close>

text \<open>
  C7. \<open>addJupyterServerOld\<close> calls \<open>serverUriStorage.add\<close> exactly when the validation
  succeeds, or it throws a self-signed-certificate error or an expired-certificate error
  and the user accepts the prompt. In every other case (a declined prompt, a prompt that
  fails, an invalid password, any other error) the store is left as it was.
\<close>

theorem addJupyterServerOld_store:
  "(StorageAdd provider \<in> set (fst (fst (addJupyterServerOld D W provider st))) \<longleftrightarrow>
      validateRemoteUri W = Inr ()
      \<or> (\<exists>err. validateRemoteUri W = Inl err
            \<and> (isSelfCertsError D err \<and> handleSelfCertsError W = Inr True
               \<or> \<not> isSelfCertsError D err \<and> isSelfCertsExpiredError D err
                  \<and> handleExpiredCertsError W = Inr True)))
   \<and> (StorageAdd provider \<notin> set (fst (fst (addJupyterServerOld D W provider st)))
        \<longrightarrow> snd (addJupyterServerOld D W provider st) = st)
   \<and> (StorageAdd provider \<in> set (fst (fst (addJupyterServerOld D W provider st)))
        \<longrightarrow> snd (addJupyterServerOld D W provider st) = snd (storage_add W provider st)
            \<and> snd (fst (addJupyterServerOld D W provider st)) = fst (storage_add W provider st))"
  by (auto simp: addJupyterServerOld_def add_to_store_def Let_def case_prod_beta
      split: sum.splits if_splits)


theorem addJupyterServerOld_store_witness:
  "addJupyterServerOld example_selector_deps declining_world example_provider [] =
     (([ValidateRemoteUri example_provider None, SendTelemetry,
        HandleSelfCertsError (Some (js ''reason: self signed certificate''))], Inr ()), [])
   \<and> StorageAdd example_provider
        \<notin> set (fst (fst (addJupyterServerOld example_selector_deps declining_world example_provider [])))
   \<and> snd (addJupyterServerOld example_selector_deps declining_world example_provider []) = []
   \<and> StorageAdd example_provider
        \<in> set (fst (fst (addJupyterServerOld example_selector_deps reachable_world example_provider [])))
   \<and> snd (addJupyterServerOld example_selector_deps reachable_world example_provider []) = [example_provider]"
proof -
  have declined: "addJupyterServerOld example_selector_deps declining_world example_provider [] =
     (([ValidateRemoteUri example_provider None, SendTelemetry,
        HandleSelfCertsError (Some (js ''reason: self signed certificate''))], Inr ()), [])"
    by (simp add: addJupyterServerOld_def self_signed_error_def example_selector_deps_def example_provider_def
        declining_world_def reachable_world_def js_def)
  have notin: "StorageAdd example_provider
        \<notin> set (fst (fst (addJupyterServerOld example_selector_deps declining_world example_provider [])))"
    by (simp add: declined)
  have valid: "validateRemoteUri reachable_world = Inr ()"
    by (simp add: self_signed_error_def example_selector_deps_def example_provider_def
        declining_world_def reachable_world_def)
  have stored: "snd (storage_add reachable_world example_provider []) = [example_provider]"
    by (simp add: self_signed_error_def example_selector_deps_def example_provider_def
        declining_world_def reachable_world_def)
  note thm1 = addJupyterServerOld_store [of example_provider example_selector_deps declining_world "[]"]
  note thm2 = addJupyterServerOld_store [of example_provider example_selector_deps reachable_world "[]"]
  have "snd (addJupyterServerOld example_selector_deps declining_world example_provider []) = []"
    using thm1 notin by blast
  moreover have inn: "StorageAdd example_provider
        \<in> set (fst (fst (addJupyterServerOld example_selector_deps reachable_world example_provider [])))"
    using thm2 valid by blast
  moreover have "snd (addJupyterServerOld example_selector_deps reachable_world example_provider [])
        = [example_provider]"
    using thm2 inn stored by simp
  ultimately show ?thesis
    using declined notin by simp
qed

lemma startsWith_take: "startsWith s p \<longleftrightarrow> take (length p) s = p"
  by (induction p arbitrary: s) (auto split: list.splits)

lemma url_scheme_prefix: "url_scheme u = Some sch \<Longrightarrow> take (length sch) u = sch"
  by (auto simp: url_scheme_def startsWith_take split: if_splits)

lemma url_scheme_nonempty: "url_scheme u = Some sch \<Longrightarrow> sch \<noteq> []"
  by (auto simp: url_scheme_def js_def split: if_splits)

lemma url_scheme_append: "url_scheme u = Some sch \<Longrightarrow> url_scheme (u @ p) = Some sch"
  by (auto simp: url_scheme_def js_def split: if_splits list.splits)

lemma match_url_of_url:
  assumes "is_url u" and "case post of [] \<Rightarrow> True | c # cs \<Rightarrow> isWhiteSpace c"
  shows "match_url (u @ post) = Some (u, post)"
proof -
  obtain sch where sch: "url_scheme u = Some sch"
    and body: "drop (length sch) u \<noteq> []"
    and nows: "list_all (\<lambda>c. \<not> isWhiteSpace c) (drop (length sch) u)"
    using assms(1) by (auto simp: is_url_def split: option.splits)
  have u: "u = sch @ drop (length sch) u"
    using url_scheme_prefix [OF sch] by (metis append_take_drop_id)
  have len: "length sch \<le> length u"
    using body by simp
  have r: "drop (length sch) (u @ post) = drop (length sch) u @ post"
    using len by simp
  have tw: "takeWhile (\<lambda>c. \<not> isWhiteSpace c) (drop (length sch) u @ post) = drop (length sch) u"
    using nows assms(2) by (cases post) (auto simp: list_all_iff takeWhile_append2 takeWhile_eq_all_conv)
  have dw: "dropWhile (\<lambda>c. \<not> isWhiteSpace c) (drop (length sch) u @ post) = post"
    using nows assms(2) by (cases post) (auto simp: list_all_iff dropWhile_append2 dropWhile_eq_Nil_conv)
  show ?thesis
    using url_scheme_append [OF sch, of post] body u
    by (simp add: match_url_def r tw dw)
qed

lemma no_url_starts_Cons:
  "no_url_starts (Suc n) (c # s) \<longleftrightarrow> match_url (c # s) = None \<and> no_url_starts n s"
proof -
  have "(\<forall>i < Suc n. match_url (drop i (c # s)) = None) \<longleftrightarrow>
          match_url (c # s) = None \<and> (\<forall>i < n. match_url (drop i s) = None)"
    by (auto simp: less_Suc_eq_0_disj)
  then show ?thesis
    by (simp add: no_url_starts_def list_all_iff Ball_def del: upt_Suc)
qed

lemma replace_urls_prefix:
  assumes "no_url_starts (length pre) (pre @ rest)"
  shows "replace_urls (pre @ rest) = pre @ replace_urls rest"
  using assms
proof (induction pre)
  case Nil
  then show ?case by simp
next
  case (Cons c pre)
  then show ?case
    by (simp add: no_url_starts_Cons replace_urls.simps)
qed

lemma replace_urls_at_url:
  assumes "is_url u" and "case post of [] \<Rightarrow> True | c # cs \<Rightarrow> isWhiteSpace c"
  shows "replace_urls (u @ post) = markdown_link u @ replace_urls post"
proof -
  have "u \<noteq> []" using assms(1) by (auto simp: is_url_def split: option.splits)
  then obtain c cs where "u @ post = c # cs" by (cases u) auto
  then show ?thesis
    using match_url_of_url [OF assms] by (simp add: replace_urls.simps)
qed

text \<open>
  C8. \<open>validateSelectJupyterURI\<close> returns \<open>undefined\<close> when the validation succeeds. When
  the validation throws an error that is none of the three classified ones, it returns the
  localized message built from the error text in which the URLs are rewritten. A URL is
  what the regular expression matches: \<open>http://\<close> or \<open>https://\<close> followed by one or more
  characters that are not whitespace, up to the next whitespace. The text before the
  first URL is kept, the URL \<open>url\<close> becomes \<open>[url](url)\<close>, and what follows it is rewritten
  in the same way; a text in which no URL starts is returned as it is.
\<close>

theorem validateSelectJupyterURI_links:
  "(validateRemoteUri W = Inr () \<longrightarrow>
      validateSelectJupyterURI D W isWebExtension provider serverUri =
        ([ValidateRemoteUri provider (Some serverUri)], Inr None))
   \<and> (validateRemoteUri W = Inl err \<and> \<not> isSelfCertsError D err \<and> \<not> isSelfCertsExpiredError D err
         \<and> \<not> isInvalidPasswordError err \<longrightarrow>
       snd (validateSelectJupyterURI D W isWebExtension provider serverUri) =
         Inr (Some ((if isWebExtension then remoteJupyterConnectionFailedWithoutServerWithErrorWeb D
                     else remoteJupyterConnectionFailedWithoutServerWithError D)
                    (replace_urls (error_text err)))))
   \<and> (no_url_starts (length pre) (pre @ url @ post) \<and> is_url url
         \<and> (case post of [] \<Rightarrow> True | c # cs \<Rightarrow> isWhiteSpace c) \<longrightarrow>
       replace_urls (pre @ url @ post) = pre @ markdown_link url @ replace_urls post)
   \<and> (no_url_starts (length m) m \<longrightarrow> replace_urls m = m)"
proof -
  have "replace_urls m = m" if "no_url_starts (length m) m"
    using replace_urls_prefix [of m "[]"] that by (simp add: replace_urls.simps)
  then show ?thesis
    using replace_urls_prefix [of pre "url @ post"] replace_urls_at_url [of url post]
    by (auto simp: validateSelectJupyterURI_def Let_def)
qed

theorem validateSelectJupyterURI_links_witness:
  "snd (validateSelectJupyterURI example_selector_deps unreachable_world False example_provider (js ''http://s''))
     = Inr (Some (js ''Failed: no [http://a.b](http://a.b) or [https://c](https://c) here''))
   \<and> validateSelectJupyterURI example_selector_deps reachable_world False example_provider (js ''http://s'')
     = ([ValidateRemoteUri example_provider (Some (js ''http://s''))], Inr None)
   \<and> replace_urls (js ''no '' @ js ''http://a.b'' @ js '' or https://c here'')
     = js ''no '' @ markdown_link (js ''http://a.b'') @ replace_urls (js '' or https://c here'')
   \<and> replace_urls (js ''see http:// now'') = js ''see http:// now''"
proof -
  have eval: "replace_urls (js ''no http://a.b or https://c here'')
      = js ''no [http://a.b](http://a.b) or [https://c](https://c) here''"
    by (simp add: js_def replace_urls.simps match_url_def url_scheme_def markdown_link_def
        isWhiteSpace_def)
  have unclassified: "validateRemoteUri unreachable_world = Inl unreachable_error
      \<and> \<not> isSelfCertsError example_selector_deps unreachable_error
      \<and> \<not> isSelfCertsExpiredError example_selector_deps unreachable_error
      \<and> \<not> isInvalidPasswordError unreachable_error"
    by (simp add: unreachable_error_def unreachable_world_def declining_world_def
        reachable_world_def example_selector_deps_def example_provider_def js_def)
  have msg: "error_text unreachable_error = js ''no http://a.b or https://c here''"
    by (simp add: error_text_def unreachable_error_def unreachable_world_def declining_world_def
        reachable_world_def example_selector_deps_def example_provider_def js_def)
  have valid: "validateRemoteUri reachable_world = Inr ()"
    by (simp add: unreachable_error_def unreachable_world_def declining_world_def
        reachable_world_def example_selector_deps_def example_provider_def)
  have pre: "no_url_starts (length (js ''no '')) (js ''no '' @ js ''http://a.b'' @ js '' or https://c here'')"
    by (simp add: no_url_starts_def js_def match_url_def url_scheme_def upt_rec)
  have url: "is_url (js ''http://a.b'')"
    by (simp add: is_url_def js_def url_scheme_def isWhiteSpace_def)
  have post: "case js '' or https://c here'' of [] \<Rightarrow> True | c # cs \<Rightarrow> isWhiteSpace c"
    by (simp add: js_def isWhiteSpace_def)
  have plain: "no_url_starts (length (js ''see http:// now'')) (js ''see http:// now'')"
    by (simp add: no_url_starts_def js_def match_url_def url_scheme_def upt_rec isWhiteSpace_def)
  note thm1 = validateSelectJupyterURI_links [of unreachable_world example_selector_deps False
      example_provider "js ''http://s''" unreachable_error "js ''no ''" "js ''http://a.b''"
      "js '' or https://c here''" "js ''see http:// now''"]
  note thm2 = validateSelectJupyterURI_links [of reachable_world example_selector_deps False
      example_provider "js ''http://s''"]
  have "snd (validateSelectJupyterURI example_selector_deps unreachable_world False example_provider (js ''http://s''))
     = Inr (Some (js ''Failed: no [http://a.b](http://a.b) or [https://c](https://c) here''))"
    using thm1 unclassified msg eval by (simp add: unreachable_error_def unreachable_world_def declining_world_def
        reachable_world_def example_selector_deps_def example_provider_def js_def)
  moreover have "validateSelectJupyterURI example_selector_deps reachable_world False example_provider (js ''http://s'')
     = ([ValidateRemoteUri example_provider (Some (js ''http://s''))], Inr None)"
    using thm2 valid by blast
  moreover have "replace_urls (js ''no '' @ js ''http://a.b'' @ js '' or https://c here'')
     = js ''no '' @ markdown_link (js ''http://a.b'') @ replace_urls (js '' or https://c here'')"
    using thm1 pre url post by blast
  moreover have "replace_urls (js ''see http:// now'') = js ''see http:// now''"
    using thm1 plain by blast
  ultimately show ?thesis by simp
qed

end
